theory Spec2Isabelle
  imports Complex_Main "HOL-Library.Sublist"
begin

section \<open>The MTG retrieval-augmented answering pipeline (rag\_retrieval.py)\<close>

text \<open>
  A shallow embedding of the class \<^verbatim>\<open>MTGRAGPipeline\<close>. Python strings are \<open>string\<close>,
  dictionaries are maps, the objects returned by the vector store are records, and every
  exception is a value of type \<open>exn\<close>. Scores, thresholds and temperatures are Python floats;
  they are modelled by the real numbers they denote, on which \<^verbatim>\<open>>=\<close> is the order of
  the reals. Calls of \<^verbatim>\<open>logger\<close> have no influence on any returned value and are left out.
\<close>

subsection \<open>Exceptions\<close>

datatype exn =
    KeyError string
  | IndexError
  | CollaboratorError string

text \<open>
  \<^verbatim>\<open>repr\<close> of a string, a character of the model being a code point below 256. The
  delimiter is the single quote, or the double quote when the string holds a single quote
  and no double quote. A backslash and the delimiter get a backslash in front; tab, line
  feed and carriage return are written \<^verbatim>\<open>\t\<close>, \<^verbatim>\<open>\n\<close>, \<^verbatim>\<open>\r\<close>; any other character that is
  not printable (below 32, from 127 to 160, and 173) is written \<^verbatim>\<open>\xNN\<close> with two
  lowercase hexadecimal digits.
\<close>

definition hex_digit :: "nat \<Rightarrow> char" where
  "hex_digit d = ''0123456789abcdef'' ! d"

definition repr_char :: "char \<Rightarrow> char \<Rightarrow> string" where
  "repr_char quote c =
     (let n = (of_char c :: nat)
      in if c = quote \<or> c = CHR 0x5C then [CHR 0x5C, c]
         else if c = CHR 0x09 then [CHR 0x5C, CHR ''t'']
         else if c = CHR 0x0A then [CHR 0x5C, CHR ''n'']
         else if c = CHR 0x0D then [CHR 0x5C, CHR ''r'']
         else if n < 32 \<or> (127 \<le> n \<and> n \<le> 160) \<or> n = 173
           then [CHR 0x5C, CHR ''x'', hex_digit (n div 16), hex_digit (n mod 16)]
         else [c])"

definition repr_str :: "string \<Rightarrow> string" where
  "repr_str s =
     (let quote = (if CHR 0x27 \<in> set s \<and> CHR 0x22 \<notin> set s then CHR 0x22 else CHR 0x27)
      in [quote] @ concat (map (repr_char quote) s) @ [quote])"

text \<open>\<^verbatim>\<open>str(e)\<close>: the repr of the key for a KeyError, the fixed message of an
  out-of-range list index, the message carried by an exception of a collaborator.\<close>

fun str_exn :: "exn \<Rightarrow> string" where
  "str_exn (KeyError k) = repr_str k"
| "str_exn IndexError = ''list index out of range''"
| "str_exn (CollaboratorError m) = m"

subsection \<open>Data\<close>

text \<open>One object of a query response: \<^verbatim>\<open>obj.properties\<close>, a dict from property names to
  values, and \<^verbatim>\<open>obj.metadata\<close> with the requested \<^verbatim>\<open>score\<close> and \<^verbatim>\<open>distance\<close>. Every
  property that the pipeline reads has the data type TEXT in the collection schemas of
  mtg\_weaviate.py, so the values are strings.\<close>

record metadata_return =
  score :: real
  distance :: real

record obj =
  properties :: "string \<rightharpoonup> string"
  metadata :: metadata_return

text \<open>The dict stored under \<^verbatim>\<open>"search_metadata"\<close>; a key may be absent.\<close>

record search_metadata =
  md_query :: "string option"
  md_timestamp :: "string option"
  md_limits :: "(string \<rightharpoonup> int) option"
  md_min_score :: "real option"

text \<open>The dict returned by \<^verbatim>\<open>search_all_collections\<close>. The formatter reads
  \<^verbatim>\<open>"search_metadata"\<close> with \<^verbatim>\<open>.get\<close>, so that key may be absent (\<open>None\<close>).\<close>

record search_results =
  rules :: "obj list"
  cards :: "obj list"
  rulings :: "obj list"
  search_metadata :: "search_metadata option"

text \<open>
  The object \<^verbatim>\<open>self\<close>. Both collaborators are external services: what they answer may
  change from one call to the next, so each takes the tick (the position of the call in
  the run) as its first argument.
  \<^item> \<open>client\<close>: tick, collection name, query text, limit; the value of
    \<^verbatim>\<open>self.client.collections.get(name).query.near_text(...).objects\<close> or the exception raised
    on the way;
  \<^item> \<open>openai_client\<close>: tick, model, messages (role, content), temperature, max\_tokens; the
    message contents of \<^verbatim>\<open>response.choices\<close> or the exception raised.
\<close>

record pipeline =
  client :: "nat \<Rightarrow> string \<Rightarrow> string \<Rightarrow> int \<Rightarrow> exn + obj list"
  openai_client :: "nat \<Rightarrow> string \<Rightarrow> (string \<times> string) list \<Rightarrow> real \<Rightarrow> nat \<Rightarrow> exn + string list"
  model :: string
  collections :: "string \<rightharpoonup> string"

text \<open>\<^verbatim>\<open>__init__\<close>: the model defaults to \<^verbatim>\<open>"gpt-4"\<close>, the collection names are fixed.\<close>

definition init ::
  "(nat \<Rightarrow> string \<Rightarrow> string \<Rightarrow> int \<Rightarrow> exn + obj list) \<Rightarrow>
   (nat \<Rightarrow> string \<Rightarrow> (string \<times> string) list \<Rightarrow> real \<Rightarrow> nat \<Rightarrow> exn + string list) \<Rightarrow>
   string option \<Rightarrow> pipeline" where
  "init weaviate_client openai model_arg =
     \<lparr> client = weaviate_client,
       openai_client = openai,
       model = (case model_arg of None \<Rightarrow> ''gpt-4'' | Some m \<Rightarrow> m),
       collections = [''rules'' \<mapsto> ''MTGOfficialRules'',
                      ''cards'' \<mapsto> ''MTGCards'',
                      ''rulings'' \<mapsto> ''MTGRulings''] \<rparr>"

subsection \<open>search\_all\_collections\<close>

text \<open>An optional argument: \<open>None\<close> when the caller omits it, and then the default of
  the signature is taken.\<close>

definition or_default :: "'a option \<Rightarrow> 'a \<Rightarrow> 'a" where
  "or_default arg dflt = (case arg of None \<Rightarrow> dflt | Some v \<Rightarrow> v)"

text \<open>\<^verbatim>\<open>d[k]\<close> on a dict raises KeyError for an absent key.\<close>

definition getitem :: "(string \<rightharpoonup> 'v) \<Rightarrow> string \<Rightarrow> exn + 'v" where
  "getitem d k = (case d k of None \<Rightarrow> Inl (KeyError k) | Some v \<Rightarrow> Inr v)"

text \<open>
  The body of one \<^verbatim>\<open>try\<close> block (the source repeats it for \<^verbatim>\<open>"rules"\<close>,
  \<^verbatim>\<open>"cards"\<close> and \<^verbatim>\<open>"rulings"\<close>): look the collection name up, evaluate
  \<^verbatim>\<open>limits[key]\<close>, query the collaborator, keep the objects whose score is at least
  \<^verbatim>\<open>min_score\<close>, in the order of the response.
\<close>

definition try_search :: "pipeline \<Rightarrow> string \<Rightarrow> string \<Rightarrow> (string \<rightharpoonup> int) \<Rightarrow> real \<Rightarrow> nat \<Rightarrow> exn + obj list" where
  "try_search self key query_text limits min_score t =
     (case getitem (collections self) key of
        Inl e \<Rightarrow> Inl e
      | Inr name \<Rightarrow>
          (case getitem limits key of
             Inl e \<Rightarrow> Inl e
           | Inr limit \<Rightarrow>
               (case client self t name query_text limit of
                  Inl e \<Rightarrow> Inl e
                | Inr objects \<Rightarrow> Inr (filter (\<lambda>obj. score (metadata obj) \<ge> min_score) objects))))"

text \<open>The block with its handler: \<^verbatim>\<open>except Exception\<close> stores the empty list.\<close>

definition search_block :: "pipeline \<Rightarrow> string \<Rightarrow> string \<Rightarrow> (string \<rightharpoonup> int) \<Rightarrow> real \<Rightarrow> nat \<Rightarrow> obj list" where
  "search_block self key query_text limits min_score t =
     (case try_search self key query_text limits min_score t of
        Inl e \<Rightarrow> []
      | Inr filtered \<Rightarrow> filtered)"

definition default_limits :: "string \<rightharpoonup> int" where
  "default_limits = [''rules'' \<mapsto> 3, ''cards'' \<mapsto> 3, ''rulings'' \<mapsto> 3]"

text \<open>The default \<^verbatim>\<open>min_score: float = 0.7\<close> is the float that the literal \<^verbatim>\<open>0.7\<close> denotes:
  the double nearest to seven tenths, a little below it.\<close>

definition float_0_7 :: real where
  "float_0_7 = 3152519739159347 / 4503599627370496"

definition default_min_score :: real where
  "default_min_score = float_0_7"

text \<open>
  \<open>now t\<close> is the value of \<^verbatim>\<open>datetime.now().isoformat()\<close> at tick \<open>t\<close>. A call started at
  tick \<open>t\<close> reads the clock at \<open>t\<close> and runs the three blocks at \<open>t + 1\<close>, \<open>t + 2\<close>,
  \<open>t + 3\<close>. An omitted optional argument is \<open>None\<close>.
\<close>

definition search_all_collections ::
  "pipeline \<Rightarrow> (nat \<Rightarrow> string) \<Rightarrow> string \<Rightarrow> (string \<rightharpoonup> int) option \<Rightarrow> real option \<Rightarrow> nat \<Rightarrow> search_results" where
  "search_all_collections self now query_text limits_arg min_score_arg t =
     (let min_score = or_default min_score_arg default_min_score;
          limits = or_default limits_arg default_limits;
          results = \<lparr> rules = [], cards = [], rulings = [],
                      search_metadata = Some \<lparr> md_query = Some query_text,
                                               md_timestamp = Some (now t),
                                               md_limits = Some limits,
                                               md_min_score = Some min_score \<rparr> \<rparr>;
          results = results \<lparr> rules := search_block self ''rules'' query_text limits min_score (t + 1) \<rparr>;
          results = results \<lparr> cards := search_block self ''cards'' query_text limits min_score (t + 2) \<rparr>;
          results = results \<lparr> rulings := search_block self ''rulings'' query_text limits min_score (t + 3) \<rparr>
      in results)"

subsection \<open>Rendering numbers and joining lines\<close>

text \<open>\<^verbatim>\<open>f"{i}"\<close> for the counter of \<^verbatim>\<open>enumerate\<close>: the decimal digits of a natural number.
  \<open>digit_char\<close> is only applied to numbers below ten.\<close>

definition digit_char :: "nat \<Rightarrow> char" where
  "digit_char d = ''0123456789'' ! d"

fun str_nat :: "nat \<Rightarrow> string" where
  "str_nat n = (if n < 10 then [digit_char n] else str_nat (n div 10) @ [digit_char (n mod 10)])"

declare str_nat.simps [simp del]

text \<open>
  \<^verbatim>\<open>f"{score:.3f}"\<close>: the value is rounded to a multiple of one thousandth, a tie going to
  the even neighbour, and printed with a sign when negative, the integer part, a point
  and three digits. An exponent is never used. Python rounds the exact value of the float,
  which is the real number of the model; the values without a real counterpart (infinities,
  NaN, negative zero) are outside the model.
\<close>

definition round_half_even :: "real \<Rightarrow> nat" where
  "round_half_even y =
     (let f = nat \<lfloor>y\<rfloor>; d = y - of_int \<lfloor>y\<rfloor>
      in if d < 1 / 2 then f else if d > 1 / 2 then f + 1 else if even f then f else f + 1)"

definition format_3f :: "real \<Rightarrow> string" where
  "format_3f x =
     (let n = round_half_even (\<bar>x\<bar> * 1000);
          frac = n mod 1000
      in (if x < 0 then ''-'' else []) @ str_nat (n div 1000) @ ''.'' @
         [digit_char (frac div 100), digit_char (frac div 10 mod 10), digit_char (frac mod 10)])"

text \<open>\<^verbatim>\<open>sep.join(parts)\<close>.\<close>

fun join :: "string \<Rightarrow> string list \<Rightarrow> string" where
  "join sep [] = []"
| "join sep [x] = x"
| "join sep (x # y # ys) = x @ sep @ join sep (y # ys)"

subsection \<open>format\_context\_for\_llm\<close>

text \<open>\<^verbatim>\<open>d.get(k, default)\<close>.\<close>

definition get_default :: "(string \<rightharpoonup> 'v) \<Rightarrow> string \<Rightarrow> 'v \<Rightarrow> 'v" where
  "get_default d k dflt = (case d k of None \<Rightarrow> dflt | Some v \<Rightarrow> v)"

text \<open>\<^verbatim>\<open>getattr(obj.metadata, 'score', 0)\<close>: the attribute exists on every metadata object
  of the model, so the default is never taken.\<close>

definition getattr_score :: "obj \<Rightarrow> real" where
  "getattr_score ob = score (metadata ob)"

text \<open>The common beginning \<^verbatim>\<open>f"{i}. [Score: {score:.3f}] "\<close> of every entry.\<close>

definition entry_prefix :: "nat \<Rightarrow> real \<Rightarrow> string" where
  "entry_prefix i sc = str_nat i @ ''. [Score: '' @ format_3f sc @ ''] ''"

text \<open>One entry of the rules section.\<close>

definition rule_line :: "nat \<Rightarrow> obj \<Rightarrow> string" where
  "rule_line i ob =
     (let rule_text = get_default (properties ob) ''rule'' [];
          sc = getattr_score ob
      in entry_prefix i sc @ rule_text)"

text \<open>One entry of the cards section; a string is true when it is not empty.\<close>

definition card_info :: "nat \<Rightarrow> obj \<Rightarrow> string" where
  "card_info i ob =
     (let name = get_default (properties ob) ''name'' ''Unknown Card'';
          text = get_default (properties ob) ''text'' [];
          card_type = get_default (properties ob) ''type'' [];
          manacost = get_default (properties ob) ''manacost'' [];
          power = get_default (properties ob) ''power'' [];
          toughness = get_default (properties ob) ''toughness'' [];
          sc = getattr_score ob;
          info = entry_prefix i sc @ name;
          info = (if manacost \<noteq> [] then info @ '' '' @ manacost else info);
          info = (if card_type \<noteq> [] then info @ '' - '' @ card_type else info);
          info = (if power \<noteq> [] \<and> toughness \<noteq> [] then info @ '' ('' @ power @ ''/'' @ toughness @ '')'' else info);
          info = (if text \<noteq> [] then info @ ''\<newline>   Text: '' @ text else info)
      in info)"

text \<open>One entry of the rulings section.\<close>

definition ruling_info :: "nat \<Rightarrow> obj \<Rightarrow> string" where
  "ruling_info i ob =
     (let name = get_default (properties ob) ''name'' ''Unknown Card'';
          ruling = get_default (properties ob) ''rulings'' [];
          ruling_date = get_default (properties ob) ''ruling_date'' [];
          source = get_default (properties ob) ''source'' [];
          sc = getattr_score ob;
          info = entry_prefix i sc @ name;
          info = (if ruling_date \<noteq> [] then info @ '' ('' @ ruling_date @ '')'' else info);
          info = (if source \<noteq> [] then info @ '' - Source: '' @ source else info);
          info = info @ ''\<newline>   Ruling: '' @ ruling
      in info)"

text \<open>
  The loop \<^verbatim>\<open>for i, obj in enumerate(xs, 1): context_parts.append(line)\<close>, with the
  counter and the list \<^verbatim>\<open>context_parts\<close> as arguments.
\<close>

fun append_entries :: "(nat \<Rightarrow> obj \<Rightarrow> string) \<Rightarrow> nat \<Rightarrow> obj list \<Rightarrow> string list \<Rightarrow> string list" where
  "append_entries line i [] parts = parts"
| "append_entries line i (ob # obs) parts =
     append_entries line (Suc i) obs (parts @ [line i ob])"

text \<open>One \<^verbatim>\<open>if search_results[key]:\<close> block: header, entries, empty line; nothing for
  an empty list.\<close>

definition add_section :: "string \<Rightarrow> (nat \<Rightarrow> obj \<Rightarrow> string) \<Rightarrow> obj list \<Rightarrow> string list \<Rightarrow> string list" where
  "add_section header line obs parts =
     (if obs \<noteq> []
      then append_entries line 1 obs (parts @ [header]) @ ['''']
      else parts)"

text \<open>\<^verbatim>\<open>search_results.get("search_metadata", {})\<close>: the empty dict when the key is absent.\<close>

definition get_search_metadata :: "search_results \<Rightarrow> search_metadata" where
  "get_search_metadata sr =
     or_default (search_metadata sr)
       \<lparr> md_query = None, md_timestamp = None, md_limits = None, md_min_score = None \<rparr>"

text \<open>The list \<^verbatim>\<open>context_parts\<close> when the function returns.\<close>

definition context_parts :: "search_results \<Rightarrow> string list" where
  "context_parts sr =
     (let md = get_search_metadata sr;
          parts = [];
          parts = parts @ [''SEARCH QUERY: '' @ or_default (md_query md) ''Unknown''];
          parts = parts @ [''SEARCH TIMESTAMP: '' @ or_default (md_timestamp md) ''Unknown''];
          parts = parts @ [''''];
          parts = add_section ''=== OFFICIAL RULES ==='' rule_line (rules sr) parts;
          parts = add_section ''=== RELEVANT CARDS ==='' card_info (cards sr) parts;
          parts = add_section ''=== OFFICIAL RULINGS ==='' ruling_info (rulings sr) parts
      in parts)"

text \<open>The method takes \<^verbatim>\<open>self\<close> and the search results and returns the text.\<close>

definition format_context_for_llm :: "pipeline \<Rightarrow> search_results \<Rightarrow> string" where
  "format_context_for_llm self sr = join ''\<newline>'' (context_parts sr)"

subsection \<open>format\_context\_for\_llm, statement by statement\<close>

text \<open>
  The same method as a transformer of the state that its statements can reach: the object
  \<^verbatim>\<open>self\<close>, the dict \<^verbatim>\<open>search_results\<close> passed as argument, the tick (advanced by every read
  of the clock and every call of a collaborator) and the local list \<^verbatim>\<open>context_parts\<close>.
  A statement that assigned to \<^verbatim>\<open>self\<close> or to the dict, or that read the clock, would update
  the field concerned.
\<close>

record fmt_state =
  st_self :: pipeline
  st_results :: search_results
  st_tick :: nat
  st_parts :: "string list"

text \<open>\<^verbatim>\<open>context_parts.append(line)\<close>.\<close>

definition append_part :: "string \<Rightarrow> fmt_state \<Rightarrow> fmt_state" where
  "append_part line st = st \<lparr> st_parts := st_parts st @ [line] \<rparr>"

text \<open>\<^verbatim>\<open>for i, obj in enumerate(xs, 1): context_parts.append(line)\<close>; the line is built
  from the counter and the object in local strings.\<close>

fun for_entries :: "(nat \<Rightarrow> obj \<Rightarrow> string) \<Rightarrow> nat \<Rightarrow> obj list \<Rightarrow> fmt_state \<Rightarrow> fmt_state" where
  "for_entries line i [] st = st"
| "for_entries line i (ob # obs) st = for_entries line (Suc i) obs (append_part (line i ob) st)"

text \<open>One \<^verbatim>\<open>if search_results[key]:\<close> block; the list is read from the dict in the state.\<close>

definition section_block ::
  "string \<Rightarrow> (nat \<Rightarrow> obj \<Rightarrow> string) \<Rightarrow> (search_results \<Rightarrow> obj list) \<Rightarrow> fmt_state \<Rightarrow> fmt_state" where
  "section_block header line coll st =
     (if coll (st_results st) \<noteq> []
      then (let st = append_part header st;
                st = for_entries line 1 (coll (st_results st)) st;
                st = append_part [] st
            in st)
      else st)"

text \<open>The body of the method: the returned text and the state at the return.\<close>

definition format_context_for_llm_run :: "fmt_state \<Rightarrow> string \<times> fmt_state" where
  "format_context_for_llm_run st0 =
     (let st = st0 \<lparr> st_parts := [] \<rparr>;
          md = get_search_metadata (st_results st);
          st = append_part (''SEARCH QUERY: '' @ or_default (md_query md) ''Unknown'') st;
          st = append_part (''SEARCH TIMESTAMP: '' @ or_default (md_timestamp md) ''Unknown'') st;
          st = append_part [] st;
          st = section_block ''=== OFFICIAL RULES ==='' rule_line rules st;
          st = section_block ''=== RELEVANT CARDS ==='' card_info cards st;
          st = section_block ''=== OFFICIAL RULINGS ==='' ruling_info rulings st
      in (join ''\<newline>'' (st_parts st), st))"

subsection \<open>generate\_answer\<close>

definition system_prompt :: string where
  "system_prompt =
     ''You are an expert Magic: The Gathering judge with comprehensive knowledge of the game rules, cards, and official rulings. \<newline>'' @
     ''\<newline>'' @
     ''Your responsibilities:\<newline>'' @
     ''1. Provide accurate, rule-based answers using the official context provided\<newline>'' @
     ''2. Cite specific rules, cards, or rulings when relevant\<newline>'' @
     ''3. Explain complex interactions clearly and step-by-step\<newline>'' @
     ''4. If the provided context doesn't fully answer the question, clearly state what information is missing\<newline>'' @
     ''5. Always prioritize official rules over card text when there are conflicts\<newline>'' @
     ''6. Use proper MTG terminology\<newline>'' @
     ''\<newline>'' @
     ''Answer format guidelines:\<newline>'' @
     ''- Start with a direct answer to the question\<newline>'' @
     ''- Provide detailed explanation with rule citations\<newline>'' @
     ''- Include relevant card interactions if applicable\<newline>'' @
     ''- End with any important caveats or edge cases''"

definition user_prompt :: "string \<Rightarrow> string \<Rightarrow> string" where
  "user_prompt question context =
     ''Based on the following official Magic: The Gathering information, please answer this question:\<newline>'' @
     ''\<newline>'' @
     ''QUESTION: '' @ question @ ''\<newline>'' @
     ''\<newline>'' @
     ''OFFICIAL CONTEXT:\<newline>'' @
     context @ ''\<newline>'' @
     ''\<newline>'' @
     ''Please provide a comprehensive answer using the official information provided above.''"

text \<open>The default \<^verbatim>\<open>temperature: float = 0.1\<close> is the float that the literal \<^verbatim>\<open>0.1\<close>
  denotes: the double nearest to one tenth, a little above it.\<close>

definition float_0_1 :: real where
  "float_0_1 = 3602879701896397 / 36028797018963968"

definition default_temperature :: real where
  "default_temperature = float_0_1"

definition max_tokens :: nat where
  "max_tokens = 1000"

text \<open>The request \<^verbatim>\<open>self.openai_client.chat.completions.create(...)\<close> at tick \<open>t\<close>.\<close>

definition chat_completions_create :: "pipeline \<Rightarrow> string \<Rightarrow> string \<Rightarrow> real \<Rightarrow> nat \<Rightarrow> exn + string list" where
  "chat_completions_create self question context temperature t =
     openai_client self t (model self)
       [(''system'', system_prompt), (''user'', user_prompt question context)]
       temperature max_tokens"

text \<open>The body of the \<^verbatim>\<open>try\<close> block: the request, then
  \<^verbatim>\<open>response.choices[0].message.content\<close>, which raises IndexError on an empty list.\<close>

definition try_generate :: "pipeline \<Rightarrow> string \<Rightarrow> string \<Rightarrow> real \<Rightarrow> nat \<Rightarrow> exn + string" where
  "try_generate self question context temperature t =
     (case chat_completions_create self question context temperature t of
        Inl e \<Rightarrow> Inl e
      | Inr choices \<Rightarrow>
          (case choices of
             [] \<Rightarrow> Inl IndexError
           | content # _ \<Rightarrow> Inr content))"

definition generate_answer :: "pipeline \<Rightarrow> string \<Rightarrow> string \<Rightarrow> real option \<Rightarrow> nat \<Rightarrow> string" where
  "generate_answer self question context temperature_arg t =
     (let temperature = or_default temperature_arg default_temperature
      in case try_generate self question context temperature t of
           Inr content \<Rightarrow> content
         | Inl e \<Rightarrow> ''I encountered an error while generating the answer: '' @ str_exn e)"

subsection \<open>answer\_question\<close>

record sources =
  n_rules :: nat
  n_cards :: nat
  n_rulings :: nat

record search_params =
  sp_limits :: "(string \<rightharpoonup> int) option"
  sp_min_score :: real
  sp_temperature :: real

record debug_info =
  dbg_search_results :: search_results
  dbg_formatted_context :: string
  dbg_search_params :: search_params

text \<open>The dict that \<^verbatim>\<open>answer_question\<close> and the handler of \<^verbatim>\<open>batch_answer_questions\<close>
  build; a key that a dict lacks is \<open>None\<close>.\<close>

record answer_dict =
  question :: string
  answer :: string
  timestamp :: "string option"
  sources_found :: "sources option"
  debug :: "debug_info option"
  error :: "bool option"

text \<open>
  A call started at tick \<open>t\<close>: the search takes the ticks \<open>t\<close> to \<open>t + 3\<close>, the generation
  request is made at \<open>t + 4\<close>, the clock is read again at \<open>t + 5\<close>.
\<close>

definition answer_question ::
  "pipeline \<Rightarrow> (nat \<Rightarrow> string) \<Rightarrow> string \<Rightarrow> (string \<rightharpoonup> int) option \<Rightarrow> real option \<Rightarrow> real option \<Rightarrow>
   bool option \<Rightarrow> nat \<Rightarrow> answer_dict" where
  "answer_question self now question_text limits min_score_arg temperature_arg include_debug_arg t =
     (let min_score = or_default min_score_arg default_min_score;
          temperature = or_default temperature_arg default_temperature;
          include_debug = or_default include_debug_arg False;
          results = search_all_collections self now question_text limits (Some min_score) t;
          context = format_context_for_llm self results;
          ans = generate_answer self question_text context (Some temperature) (t + 4);
          result = \<lparr> question = question_text,
                     answer = ans,
                     timestamp = Some (now (t + 5)),
                     sources_found = Some \<lparr> n_rules = length (rules results),
                                             n_cards = length (cards results),
                                             n_rulings = length (rulings results) \<rparr>,
                     debug = None,
                     error = None \<rparr>;
          result = (if include_debug
                    then result \<lparr> debug := Some \<lparr> dbg_search_results = results,
                                                  dbg_formatted_context = context,
                                                  dbg_search_params = \<lparr> sp_limits = limits,
                                                                        sp_min_score = min_score,
                                                                        sp_temperature = temperature \<rparr> \<rparr> \<rparr>
                    else result)
      in result)"

subsection \<open>batch\_answer\_questions\<close>

text \<open>The keyword arguments handed on to \<^verbatim>\<open>answer_question\<close>.\<close>

record kwargs =
  kw_limits :: "(string \<rightharpoonup> int) option"
  kw_min_score :: "real option"
  kw_temperature :: "real option"
  kw_include_debug :: "bool option"

text \<open>The dict that the handler appends for a question whose call raised.\<close>

definition error_record :: "string \<Rightarrow> exn \<Rightarrow> answer_dict" where
  "error_record q e =
     \<lparr> question = q,
       answer = ''Error processing question: '' @ str_exn e,
       timestamp = None,
       sources_found = None,
       debug = None,
       error = Some True \<rparr>"

text \<open>
  The body of the loop. \<open>answer_fn q t\<close> is the outcome of the call
  \<^verbatim>\<open>self.answer_question(question, **kwargs)\<close> started at tick \<open>t\<close>: the dict returned or
  the exception raised; the handler turns an exception into the error dict.
\<close>

definition try_answer :: "(string \<Rightarrow> nat \<Rightarrow> exn + answer_dict) \<Rightarrow> string \<Rightarrow> nat \<Rightarrow> answer_dict" where
  "try_answer answer_fn q t =
     (case answer_fn q t of
        Inr result \<Rightarrow> result
      | Inl e \<Rightarrow> error_record q e)"

text \<open>The loop over the questions, appending to \<^verbatim>\<open>results\<close>. Each question has six ticks.\<close>

fun batch_loop :: "(string \<Rightarrow> nat \<Rightarrow> exn + answer_dict) \<Rightarrow> string list \<Rightarrow> nat \<Rightarrow> answer_dict list \<Rightarrow> answer_dict list" where
  "batch_loop answer_fn [] t results = results"
| "batch_loop answer_fn (q # qs) t results =
     batch_loop answer_fn qs (t + 6)
       (results @ [try_answer answer_fn q t])"

definition batch_answer_questions :: "pipeline \<Rightarrow> (nat \<Rightarrow> string) \<Rightarrow> string list \<Rightarrow> kwargs \<Rightarrow> nat \<Rightarrow> answer_dict list" where
  "batch_answer_questions self now questions kw t =
     batch_loop
       (\<lambda>q t'. Inr (answer_question self now q (kw_limits kw) (kw_min_score kw) (kw_temperature kw)
                      (kw_include_debug kw) t'))
       questions t []"

section \<open>Properties\<close>

subsection \<open>Notions used in the statements\<close>

text \<open>\<^verbatim>\<open>results[key]\<close> for the three collection keys, and the tick, counted from the start
  of the call, at which the block of a key runs.\<close>

definition collection_results :: "search_results \<Rightarrow> string \<Rightarrow> obj list" where
  "collection_results sr key =
     (if key = ''rules'' then rules sr
      else if key = ''cards'' then cards sr
      else if key = ''rulings'' then rulings sr
      else [])"

definition slot :: "string \<Rightarrow> nat" where
  "slot key = (if key = ''rules'' then 1 else if key = ''cards'' then 2 else 3)"

text \<open>Decimal digits, and the number that a string of digits denotes.\<close>

definition is_digit :: "char \<Rightarrow> bool" where
  "is_digit c = (c \<in> set ''0123456789'')"

definition digit_value :: "char \<Rightarrow> nat" where
  "digit_value c = of_char c - 48"

definition nat_of_digits :: "string \<Rightarrow> nat" where
  "nat_of_digits ds = foldl (\<lambda>a c. 10 * a + digit_value c) 0 ds"

text \<open>A number printed with three decimal places: an optional minus sign, at least one
  digit, a point, three digits.\<close>

definition three_decimals :: "string \<Rightarrow> bool" where
  "three_decimals s =
     (let body = (if s \<noteq> [] \<and> hd s = CHR ''-'' then tl s else s);
          n = length body
      in 5 \<le> n \<and> body ! (n - 4) = CHR ''.'' \<and>
         list_all is_digit (take (n - 4) body) \<and> list_all is_digit (drop (n - 3) body))"

text \<open>The layout of a section as the specification words it: nothing for an empty list;
  otherwise the header, the entries of the results numbered from 1 in their order, and an
  empty line.\<close>

definition spec_section :: "string \<Rightarrow> (nat \<Rightarrow> obj \<Rightarrow> string) \<Rightarrow> obj list \<Rightarrow> string list" where
  "spec_section header line obs =
     (if obs = [] then []
      else header # map (\<lambda>(i, ob). line i ob) (List.enumerate 1 obs) @ [''''])"

text \<open>The segment of an optional field of an entry as the specification words it: nothing
  when the field is missing (or empty), else the value between its delimiters. Power and
  toughness form one segment, which needs both.\<close>

definition optional_segment :: "string \<Rightarrow> string option \<Rightarrow> string \<Rightarrow> string" where
  "optional_segment before field after =
     (case field of
        None \<Rightarrow> []
      | Some v \<Rightarrow> if v = [] then [] else before @ v @ after)"

definition power_toughness_segment :: "string option \<Rightarrow> string option \<Rightarrow> string" where
  "power_toughness_segment power_field toughness_field =
     (case power_field of
        None \<Rightarrow> []
      | Some pw \<Rightarrow>
          (case toughness_field of
             None \<Rightarrow> []
           | Some tg \<Rightarrow> if pw = [] \<or> tg = [] then [] else '' ('' @ pw @ ''/'' @ tg @ '')''))"

text \<open>The three lines that open the context, and the entries of a collection, numbered
  from 1.\<close>

definition metadata_lines :: "search_results \<Rightarrow> string list" where
  "metadata_lines sr =
     [''SEARCH QUERY: '' @ or_default (md_query (get_search_metadata sr)) ''Unknown'',
      ''SEARCH TIMESTAMP: '' @ or_default (md_timestamp (get_search_metadata sr)) ''Unknown'',
      []]"

definition entry_lines :: "(nat \<Rightarrow> obj \<Rightarrow> string) \<Rightarrow> obj list \<Rightarrow> string list" where
  "entry_lines line obs = map (\<lambda>(i, ob). line i ob) (List.enumerate 1 obs)"

text \<open>The keys of the properties that the formatter reads, and the texts that it copies
  into the context: the query, the timestamp and the values under these keys (the empty
  string for a missing key) of all retained results.\<close>

definition read_properties :: "string list" where
  "read_properties =
     [''rule'', ''name'', ''text'', ''type'', ''manacost'', ''power'', ''toughness'',
      ''rulings'', ''ruling_date'', ''source'']"

definition content_strings :: "search_results \<Rightarrow> string list" where
  "content_strings sr =
     [or_default (md_query (get_search_metadata sr)) ''Unknown'',
      or_default (md_timestamp (get_search_metadata sr)) ''Unknown''] @
     concat (map (\<lambda>ob. map (\<lambda>k. or_default (properties ob k) []) read_properties)
               (rules sr @ cards sr @ rulings sr))"

text \<open>The names of the properties of the cards collection, as mtg\_weaviate.py creates
  it (\<^verbatim>\<open>client.collections.create("MTGCards3", properties=[...])\<close>).\<close>

definition cards_schema_properties :: "string list" where
  "cards_schema_properties =
     [''name'', ''manaCost'', ''type'', ''text'', ''power'', ''toughness'', ''colors'']"

subsection \<open>A stub environment\<close>

text \<open>
  The collaborators of the example in the specification: the rules search returns one
  match with score 0.9, the cards search one match with score 0.5, the rulings search
  times out. The generation service fails at tick 4 and answers at every other tick.
\<close>

definition demo_rule :: obj where
  "demo_rule = \<lparr> properties = [''rule'' \<mapsto> ''702.19b Trample assigns excess damage.''],
                  metadata = \<lparr> score = 9 / 10, distance = 1 / 10 \<rparr> \<rparr>"

definition demo_card :: obj where
  "demo_card = \<lparr> properties = [''name'' \<mapsto> ''Colossal Dreadmaw'', ''manaCost'' \<mapsto> ''{4}{G}{G}'',
                                  ''type'' \<mapsto> ''Creature'', ''power'' \<mapsto> ''6'', ''toughness'' \<mapsto> ''6''],
                  metadata = \<lparr> score = 1 / 2, distance = 1 / 2 \<rparr> \<rparr>"

definition demo_search :: "nat \<Rightarrow> string \<Rightarrow> string \<Rightarrow> int \<Rightarrow> exn + obj list" where
  "demo_search t name query_text limit =
     (if name = ''MTGOfficialRules'' then Inr [demo_rule]
      else if name = ''MTGCards'' then Inr [demo_card]
      else Inl (CollaboratorError ''timed out''))"

definition demo_chat :: "nat \<Rightarrow> string \<Rightarrow> (string \<times> string) list \<Rightarrow> real \<Rightarrow> nat \<Rightarrow> exn + string list" where
  "demo_chat t m messages temperature mt =
     (if t = 4 then Inl (CollaboratorError ''quota exceeded'') else Inr [''Excess damage is dealt to the player.''])"

definition demo_pipeline :: pipeline where
  "demo_pipeline = init demo_search demo_chat None"

definition demo_now :: "nat \<Rightarrow> string" where
  "demo_now t = ''2024-05-01T12:00:0'' @ str_nat (t mod 10)"

definition demo_limits :: "string \<rightharpoonup> int" where
  "demo_limits = [''rules'' \<mapsto> 2, ''cards'' \<mapsto> 1, ''rulings'' \<mapsto> 1]"

text \<open>The search of the example, with the limits 2, 1, 1 and the threshold 0.7.\<close>

definition demo_results :: search_results where
  "demo_results =
     search_all_collections demo_pipeline demo_now ''How does trample work?'' (Some demo_limits) (Some (7 / 10)) 0"

text \<open>A call of \<^verbatim>\<open>answer_question\<close> that raises for one question.\<close>

definition demo_answer_fn :: "string \<Rightarrow> nat \<Rightarrow> exn + answer_dict" where
  "demo_answer_fn q t =
     (if q = ''second'' then Inl (CollaboratorError ''unexpected'')
      else Inr (answer_question demo_pipeline demo_now q None None None None t))"

text \<open>A rule whose score is the float 0.7 itself.\<close>

definition demo_borderline :: obj where
  "demo_borderline = \<lparr> properties = [''rule'' \<mapsto> ''702.19a Trample is a static ability.''],
                        metadata = \<lparr> score = float_0_7, distance = 1 - float_0_7 \<rparr> \<rparr>"

text \<open>A card that stores its cost under the key the formatter reads, a ruling without any
  property, and the results of a search whose query quotes a section header.\<close>

definition demo_bolt :: obj where
  "demo_bolt = \<lparr> properties = [''name'' \<mapsto> ''Lightning Bolt'', ''manacost'' \<mapsto> ''{R}'',
                                  ''type'' \<mapsto> ''Instant'',
                                  ''text'' \<mapsto> ''Lightning Bolt deals 3 damage to any target.''],
                  metadata = \<lparr> score = 17 / 20, distance = 3 / 20 \<rparr> \<rparr>"

definition demo_ruling_bare :: obj where
  "demo_ruling_bare = \<lparr> properties = Map.empty, metadata = \<lparr> score = 4 / 5, distance = 1 / 5 \<rparr> \<rparr>"

definition demo_quoting_results :: search_results where
  "demo_quoting_results =
     \<lparr> rules = [], cards = [], rulings = [],
       search_metadata = Some \<lparr> md_query = Some ''What goes under === OFFICIAL RULES === ?'',
                                md_timestamp = Some ''2024-05-01T12:00:00'',
                                md_limits = Some demo_limits,
                                md_min_score = Some (7 / 10) \<rparr> \<rparr>"

text \<open>Two states of a run of the formatter on the results of the example: they differ in
  the pipeline object, the tick and the old content of \<^verbatim>\<open>context_parts\<close>.\<close>

definition demo_state :: fmt_state where
  "demo_state = \<lparr> st_self = demo_pipeline, st_results = demo_results, st_tick = 4,
                   st_parts = [''left over''] \<rparr>"

definition demo_state_later :: fmt_state where
  "demo_state_later =
     \<lparr> st_self = init (\<lambda>t name q l. Inr []) (\<lambda>t m msgs temp mt. Inl (CollaboratorError ''down''))
                    (Some ''gpt-3.5-turbo''),
       st_results = demo_results, st_tick = 40, st_parts = [] \<rparr>"

subsection \<open>Exceptions as text\<close>

lemma repr_str_examples:
  "repr_str ''rules'' = [CHR 0x27] @ ''rules'' @ [CHR 0x27]"
  "repr_str (''it'' @ [CHR 0x27] @ ''s'') = [CHR 0x22] @ ''it'' @ [CHR 0x27] @ ''s'' @ [CHR 0x22]"
  "repr_str (''a'' @ [CHR 0x22, CHR 0x27, CHR 0x0A, CHR 0x01]) =
     [CHR 0x27] @ ''a'' @ [CHR 0x22, CHR 0x5C, CHR 0x27, CHR 0x5C] @ ''n'' @ [CHR 0x5C] @ ''x01'' @ [CHR 0x27]"
  by (simp_all add: repr_str_def repr_char_def hex_digit_def Let_def)

subsection \<open>Search and filtering\<close>

lemma collection_results_search:
  "key \<in> {''rules'', ''cards'', ''rulings''} \<Longrightarrow>
   collection_results (search_all_collections self now q (Some L) (Some T) t) key =
     search_block self key q L T (t + slot key)"
  by (auto simp: collection_results_def search_all_collections_def slot_def Let_def or_default_def)

lemma search_block_scores:
  "ob \<in> set (search_block self key q L T t) \<Longrightarrow> T \<le> score (metadata ob)"
  by (auto simp: search_block_def try_search_def split: sum.splits)

lemma search_block_returned:
  "collections self key = Some name \<Longrightarrow> L key = Some l \<Longrightarrow> client self t name q l = Inr objs \<Longrightarrow>
   search_block self key q L T t = filter (\<lambda>ob. T \<le> score (metadata ob)) objs"
  by (simp add: search_block_def try_search_def getitem_def)

lemma search_block_raised:
  "collections self key = Some name \<Longrightarrow> L key = Some l \<Longrightarrow> client self t name q l = Inl e \<Longrightarrow>
   search_block self key q L T t = []"
  by (simp add: search_block_def try_search_def getitem_def)

lemma demo_collections:
  "collections demo_pipeline ''rules'' = Some ''MTGOfficialRules''"
  "collections demo_pipeline ''cards'' = Some ''MTGCards''"
  "collections demo_pipeline ''rulings'' = Some ''MTGRulings''"
  by (simp_all add: demo_pipeline_def init_def)

lemma demo_client: "client demo_pipeline = demo_search"
  by (simp add: demo_pipeline_def init_def)

text \<open>
  Claim C1. For every query, limits mapping \<open>L\<close> and threshold \<open>T\<close>, and for each of the
  collections rules, cards and rulings: every entry that \<^verbatim>\<open>search_all_collections\<close> retains
  has a score of at least \<open>T\<close>; and when the search collaborator, asked with the limit
  \<open>L[collection]\<close>, returns at most that many candidates, the retained list has at most
  \<open>L[collection]\<close> entries.
\<close>

theorem search_retained_bounded:
  assumes key: "key \<in> {''rules'', ''cards'', ''rulings''}"
  shows "(\<forall>ob \<in> set (collection_results (search_all_collections self now q (Some L) (Some T) t) key).
            T \<le> score (metadata ob)) \<and>
         (\<forall>name l objs.
            collections self key = Some name \<longrightarrow> L key = Some l \<longrightarrow>
            client self (t + slot key) name q l = Inr objs \<longrightarrow> int (length objs) \<le> l \<longrightarrow>
            int (length (collection_results (search_all_collections self now q (Some L) (Some T) t) key)) \<le> l)"
proof (intro conjI ballI allI impI)
  fix ob
  assume "ob \<in> set (collection_results (search_all_collections self now q (Some L) (Some T) t) key)"
  then show "T \<le> score (metadata ob)"
    using key by (simp only: collection_results_search search_block_scores)
next
  fix name l objs
  assume a: "collections self key = Some name" "L key = Some l"
    "client self (t + slot key) name q l = Inr objs" "int (length objs) \<le> l"
  have "collection_results (search_all_collections self now q (Some L) (Some T) t) key =
          filter (\<lambda>ob. T \<le> score (metadata ob)) objs"
    using key a(1,2,3) by (simp only: collection_results_search search_block_returned)
  then have "length (collection_results (search_all_collections self now q (Some L) (Some T) t) key) \<le> length objs"
    by (simp only: length_filter_le)
  then show "int (length (collection_results (search_all_collections self now q (Some L) (Some T) t) key)) \<le> l"
    using a(4) by linarith
qed

text \<open>The example of the specification: limits 2, 1, 1 and threshold 0.7; one rule with
  score 0.9 is returned and retained.\<close>

theorem search_retained_bounded_witness:
  "''rules'' \<in> {''rules'', ''cards'', ''rulings''} \<and>
   collections demo_pipeline ''rules'' = Some ''MTGOfficialRules'' \<and>
   demo_limits ''rules'' = Some 2 \<and>
   client demo_pipeline (0 + slot ''rules'') ''MTGOfficialRules'' ''How does trample work?'' 2 = Inr [demo_rule] \<and>
   int (length [demo_rule]) \<le> 2 \<and>
   collection_results (search_all_collections demo_pipeline demo_now ''How does trample work?''
       (Some demo_limits) (Some (7 / 10)) 0) ''rules'' = [demo_rule] \<and>
   7 / 10 \<le> score (metadata demo_rule) \<and>
   int (length (collection_results (search_all_collections demo_pipeline demo_now ''How does trample work?''
       (Some demo_limits) (Some (7 / 10)) 0) ''rules'')) \<le> 2"
proof -
  have k: "''rules'' \<in> {''rules'', ''cards'', ''rulings''}" by simp
  have c: "collections demo_pipeline ''rules'' = Some ''MTGOfficialRules''"
    by (rule demo_collections)
  have l: "demo_limits ''rules'' = Some 2" by (simp add: demo_limits_def)
  have r: "client demo_pipeline (0 + slot ''rules'') ''MTGOfficialRules'' ''How does trample work?'' 2 = Inr [demo_rule]"
    by (simp add: demo_client demo_search_def)
  have n: "int (length [demo_rule]) \<le> 2" by simp
  have v: "collection_results (search_all_collections demo_pipeline demo_now ''How does trample work?''
       (Some demo_limits) (Some (7 / 10)) 0) ''rules'' = [demo_rule]"
    using c l r by (simp add: collection_results_search search_block_returned demo_rule_def)
  from search_retained_bounded [OF k, of demo_pipeline demo_now "''How does trample work?''" demo_limits "7 / 10" 0]
  have "7 / 10 \<le> score (metadata demo_rule) \<and>
    int (length (collection_results (search_all_collections demo_pipeline demo_now ''How does trample work?''
       (Some demo_limits) (Some (7 / 10)) 0) ''rules'')) \<le> 2"
    using c l r n v by simp
  then show ?thesis using k c l r n v by simp
qed

text \<open>
  Claim C2. If the search collaborator raises for one collection, \<^verbatim>\<open>search_all_collections\<close>
  returns the empty list for that collection, and for every other collection whose search
  returned, the filtered response, unchanged. The function has a value in every case: each
  statement that can raise stands in a \<^verbatim>\<open>try\<close> block whose handler stores the empty list,
  so no exception leaves it.
\<close>

theorem search_failure_isolated:
  assumes "key \<in> {''rules'', ''cards'', ''rulings''}"
    and "other \<in> {''rules'', ''cards'', ''rulings''}"
    and "collections self key = Some name"
    and "L key = Some l"
    and "client self (t + slot key) name q l = Inl e"
  shows "collection_results (search_all_collections self now q (Some L) (Some T) t) key = [] \<and>
         (\<forall>name' l' objs.
            collections self other = Some name' \<longrightarrow> L other = Some l' \<longrightarrow>
            client self (t + slot other) name' q l' = Inr objs \<longrightarrow>
            collection_results (search_all_collections self now q (Some L) (Some T) t) other =
              filter (\<lambda>ob. T \<le> score (metadata ob)) objs)"
  using assms by (simp only: collection_results_search search_block_raised) (simp add: search_block_returned)

text \<open>The rulings search times out; the rules search still yields its match.\<close>

theorem search_failure_isolated_witness:
  "''rulings'' \<in> {''rules'', ''cards'', ''rulings''} \<and>
   ''rules'' \<in> {''rules'', ''cards'', ''rulings''} \<and>
   collections demo_pipeline ''rulings'' = Some ''MTGRulings'' \<and>
   demo_limits ''rulings'' = Some 1 \<and>
   client demo_pipeline (0 + slot ''rulings'') ''MTGRulings'' ''How does trample work?'' 1 =
     Inl (CollaboratorError ''timed out'') \<and>
   collections demo_pipeline ''rules'' = Some ''MTGOfficialRules'' \<and>
   demo_limits ''rules'' = Some 2 \<and>
   client demo_pipeline (0 + slot ''rules'') ''MTGOfficialRules'' ''How does trample work?'' 2 = Inr [demo_rule] \<and>
   collection_results (search_all_collections demo_pipeline demo_now ''How does trample work?''
       (Some demo_limits) (Some (7 / 10)) 0) ''rulings'' = [] \<and>
   collection_results (search_all_collections demo_pipeline demo_now ''How does trample work?''
       (Some demo_limits) (Some (7 / 10)) 0) ''rules'' = [demo_rule]"
proof -
  have k: "''rulings'' \<in> {''rules'', ''cards'', ''rulings''}" "''rules'' \<in> {''rules'', ''cards'', ''rulings''}"
    by simp_all
  have c: "collections demo_pipeline ''rulings'' = Some ''MTGRulings''"
    "collections demo_pipeline ''rules'' = Some ''MTGOfficialRules''"
    by (rule demo_collections)+
  have l: "demo_limits ''rulings'' = Some 1" "demo_limits ''rules'' = Some 2"
    by (simp_all add: demo_limits_def)
  have r: "client demo_pipeline (0 + slot ''rulings'') ''MTGRulings'' ''How does trample work?'' 1 =
     Inl (CollaboratorError ''timed out'')"
    "client demo_pipeline (0 + slot ''rules'') ''MTGOfficialRules'' ''How does trample work?'' 2 = Inr [demo_rule]"
    by (simp_all add: demo_client demo_search_def)
  have f: "filter (\<lambda>ob. 7 / 10 \<le> score (metadata ob)) [demo_rule] = [demo_rule]"
    by (simp add: demo_rule_def)
  from search_failure_isolated [where key = "''rulings''" and other = "''rules''" and self = demo_pipeline
      and name = "''MTGRulings''" and L = demo_limits and l = 1 and t = 0
      and q = "''How does trample work?''" and e = "CollaboratorError ''timed out''"
      and now = demo_now and T = "7 / 10"] k c l r f
  have "collection_results (search_all_collections demo_pipeline demo_now ''How does trample work?''
       (Some demo_limits) (Some (7 / 10)) 0) ''rulings'' = [] \<and>
     collection_results (search_all_collections demo_pipeline demo_now ''How does trample work?''
       (Some demo_limits) (Some (7 / 10)) 0) ''rules'' = [demo_rule]"
    by simp
  then show ?thesis using k c l r by simp
qed

subsection \<open>Answer generation\<close>

lemma question_answer_question:
  "question (answer_question self now q limits ms temp dbg t) = q"
  by (simp add: answer_question_def Let_def)

lemma answer_answer_question:
  "answer (answer_question self now q limits ms temp dbg t) =
     generate_answer self q
       (format_context_for_llm self
          (search_all_collections self now q limits (Some (or_default ms default_min_score)) t))
       (Some (or_default temp default_temperature)) (t + 4)"
  by (simp add: answer_question_def Let_def)

lemma generate_answer_raised:
  "chat_completions_create self q ctx (or_default temp default_temperature) t = Inl e \<Longrightarrow>
   generate_answer self q ctx temp t = ''I encountered an error while generating the answer: '' @ str_exn e"
  by (simp add: generate_answer_def try_generate_def Let_def)

text \<open>
  Claim C3. For every question, context and temperature: if the generation collaborator
  raises, \<^verbatim>\<open>generate_answer\<close> returns the fixed diagnostic sentence followed by the message
  of the exception, and \<^verbatim>\<open>answer_question\<close> returns a record whose answer is that string.
\<close>

theorem generation_failure_reported:
  "(chat_completions_create self question_text context_text (or_default temperature_arg default_temperature) t = Inl e \<longrightarrow>
      generate_answer self question_text context_text temperature_arg t =
        ''I encountered an error while generating the answer: '' @ str_exn e) \<and>
   (chat_completions_create self question_text
        (format_context_for_llm self
           (search_all_collections self now question_text limits (Some (or_default min_score_arg default_min_score)) t))
        (or_default temperature_arg default_temperature) (t + 4) = Inl e \<longrightarrow>
      answer (answer_question self now question_text limits min_score_arg temperature_arg include_debug t) =
        ''I encountered an error while generating the answer: '' @ str_exn e)"
  by (simp add: answer_answer_question generate_answer_raised or_default_def)

lemma demo_chat_down:
  "chat_completions_create demo_pipeline q ctx temp 4 = Inl (CollaboratorError ''quota exceeded'')"
  by (simp add: chat_completions_create_def demo_pipeline_def init_def demo_chat_def)

text \<open>The generation service answers the request of tick 4 with a quota error.\<close>

theorem generation_failure_reported_witness:
  "chat_completions_create demo_pipeline ''How does trample work?'' ''SEARCH QUERY: How does trample work?''
      (or_default None default_temperature) 4 = Inl (CollaboratorError ''quota exceeded'') \<and>
   generate_answer demo_pipeline ''How does trample work?'' ''SEARCH QUERY: How does trample work?'' None 4 =
      ''I encountered an error while generating the answer: quota exceeded'' \<and>
   chat_completions_create demo_pipeline ''How does trample work?''
        (format_context_for_llm demo_pipeline
           (search_all_collections demo_pipeline demo_now ''How does trample work?'' None
              (Some (or_default None default_min_score)) 0))
        (or_default None default_temperature) (0 + 4) = Inl (CollaboratorError ''quota exceeded'') \<and>
   answer (answer_question demo_pipeline demo_now ''How does trample work?'' None None None None 0) =
      ''I encountered an error while generating the answer: quota exceeded''"
  using generation_failure_reported [where self = demo_pipeline and question_text = "''How does trample work?''"
      and context_text = "''SEARCH QUERY: How does trample work?''" and temperature_arg = None and t = 4
      and e = "CollaboratorError ''quota exceeded''"]
    generation_failure_reported [where self = demo_pipeline and question_text = "''How does trample work?''"
      and temperature_arg = None and t = 0 and e = "CollaboratorError ''quota exceeded''"
      and now = demo_now and limits = None and min_score_arg = None and include_debug = None]
  by (simp add: demo_chat_down)

subsection \<open>Batch processing\<close>

lemma length_batch_loop:
  "length (batch_loop f qs t acc) = length acc + length qs"
  by (induction qs arbitrary: t acc) simp_all

lemma batch_loop_keeps:
  "i < length acc \<Longrightarrow> batch_loop f qs t acc ! i = acc ! i"
  by (induction qs arbitrary: t acc) (simp_all add: nth_append)

lemma batch_loop_nth:
  "i < length qs \<Longrightarrow>
   batch_loop f qs t acc ! (length acc + i) = try_answer f (qs ! i) (t + 6 * i)"
proof (induction qs arbitrary: t acc i)
  case Nil
  then show ?case by simp
next
  case (Cons q qs)
  show ?case
  proof (cases i)
    case 0
    then show ?thesis by (simp add: batch_loop_keeps)
  next
    case (Suc j)
    with Cons.prems have j: "j < length qs" by simp
    from Cons.IH [OF j, of "t + 6" "acc @ [try_answer f q t]"]
    show ?thesis using Suc by (simp add: ac_simps)
  qed
qed

text \<open>
  Claim C4. For every list of questions, \<^verbatim>\<open>batch_answer_questions\<close> returns a list of the
  same length whose \<open>i\<close>-th element belongs to the \<open>i\<close>-th question. Whatever the call of
  \<^verbatim>\<open>answer_question\<close> does for a question (\<open>answer_fn\<close>): where it returns, the element is the
  returned record; where it raises, the element is the error record with the question, the
  error string as answer and the error flag set; the other elements are not affected.
  With the method of this class the element is the record of \<^verbatim>\<open>answer_question\<close>.
\<close>

theorem batch_isolates_failures:
  "length (batch_loop answer_fn questions t []) = length questions \<and>
   (\<forall>i < length questions.
      (\<forall>result. answer_fn (questions ! i) (t + 6 * i) = Inr result \<longrightarrow>
         batch_loop answer_fn questions t [] ! i = result) \<and>
      (\<forall>e. answer_fn (questions ! i) (t + 6 * i) = Inl e \<longrightarrow>
         batch_loop answer_fn questions t [] ! i =
           \<lparr> question = questions ! i,
             answer = ''Error processing question: '' @ str_exn e,
             timestamp = None, sources_found = None, debug = None,
             error = Some True \<rparr>)) \<and>
   length (batch_answer_questions self now questions kw t) = length questions \<and>
   (\<forall>i < length questions.
      batch_answer_questions self now questions kw t ! i =
        answer_question self now (questions ! i) (kw_limits kw) (kw_min_score kw) (kw_temperature kw)
          (kw_include_debug kw) (t + 6 * i) \<and>
      question (batch_answer_questions self now questions kw t ! i) = questions ! i)"
proof -
  have nth: "i < length qs \<Longrightarrow> batch_loop f qs t [] ! i = try_answer f (qs ! i) (t + 6 * i)"
    for f qs i
    using batch_loop_nth [of i qs f t "[]"] by simp
  show ?thesis
    by (simp add: length_batch_loop nth batch_answer_questions_def try_answer_def error_record_def
        question_answer_question)
qed

text \<open>Three questions, the call for the second one raising.\<close>

theorem batch_isolates_failures_witness:
  "length (batch_loop demo_answer_fn [''first'', ''second'', ''third''] 6 []) = 3 \<and>
   demo_answer_fn ''second'' (6 + 6 * 1) = Inl (CollaboratorError ''unexpected'') \<and>
   batch_loop demo_answer_fn [''first'', ''second'', ''third''] 6 [] ! 1 =
     \<lparr> question = ''second'', answer = ''Error processing question: unexpected'',
       timestamp = None, sources_found = None, debug = None, error = Some True \<rparr> \<and>
   demo_answer_fn ''third'' (6 + 6 * 2) =
     Inr (answer_question demo_pipeline demo_now ''third'' None None None None 18) \<and>
   batch_loop demo_answer_fn [''first'', ''second'', ''third''] 6 [] ! 2 =
     answer_question demo_pipeline demo_now ''third'' None None None None 18 \<and>
   answer (batch_loop demo_answer_fn [''first'', ''second'', ''third''] 6 [] ! 2) =
     ''Excess damage is dealt to the player.'' \<and>
   error (batch_loop demo_answer_fn [''first'', ''second'', ''third''] 6 [] ! 2) = None"
proof -
  have a: "demo_answer_fn ''second'' (6 + 6 * 1) = Inl (CollaboratorError ''unexpected'')"
    by (simp add: demo_answer_fn_def)
  have b: "demo_answer_fn ''third'' (6 + 6 * 2) =
     Inr (answer_question demo_pipeline demo_now ''third'' None None None None 18)"
    by (simp add: demo_answer_fn_def)
  have g: "answer (answer_question demo_pipeline demo_now ''third'' None None None None 18) =
     ''Excess damage is dealt to the player.''"
    by (simp add: answer_answer_question generate_answer_def try_generate_def chat_completions_create_def
        demo_pipeline_def init_def demo_chat_def Let_def)
  have e: "error (answer_question demo_pipeline demo_now ''third'' None None None None 18) = None"
    by (simp add: answer_question_def Let_def or_default_def)
  from batch_isolates_failures [where answer_fn = demo_answer_fn
      and questions = "[''first'', ''second'', ''third'']" and t = 6]
  have len: "length (batch_loop demo_answer_fn [''first'', ''second'', ''third''] 6 []) = 3"
    and el: "\<And>i. i < 3 \<Longrightarrow>
      (\<forall>result. demo_answer_fn ([''first'', ''second'', ''third''] ! i) (6 + 6 * i) = Inr result \<longrightarrow>
         batch_loop demo_answer_fn [''first'', ''second'', ''third''] 6 [] ! i = result) \<and>
      (\<forall>e. demo_answer_fn ([''first'', ''second'', ''third''] ! i) (6 + 6 * i) = Inl e \<longrightarrow>
         batch_loop demo_answer_fn [''first'', ''second'', ''third''] 6 [] ! i =
           \<lparr> question = [''first'', ''second'', ''third''] ! i,
             answer = ''Error processing question: '' @ str_exn e,
             timestamp = None, sources_found = None, debug = None,
             error = Some True \<rparr>)"
    by simp_all
  from el [of 1] a have one: "batch_loop demo_answer_fn [''first'', ''second'', ''third''] 6 [] ! 1 =
     \<lparr> question = ''second'', answer = ''Error processing question: unexpected'',
       timestamp = None, sources_found = None, debug = None, error = Some True \<rparr>"
    by simp
  from el [of 2] b have two: "batch_loop demo_answer_fn [''first'', ''second'', ''third''] 6 [] ! 2 =
     answer_question demo_pipeline demo_now ''third'' None None None None 18"
    by simp
  show ?thesis using len a one b two g e by simp
qed

subsection \<open>Defaults\<close>

lemma generate_answer_cases:
  "generate_answer self q ctx temp t =
     (case openai_client self t (model self)
             [(''system'', system_prompt), (''user'', user_prompt q ctx)]
             (or_default temp default_temperature) 1000 of
        Inl e \<Rightarrow> ''I encountered an error while generating the answer: '' @ str_exn e
      | Inr [] \<Rightarrow> ''I encountered an error while generating the answer: list index out of range''
      | Inr (content # rest) \<Rightarrow> content)"
  by (simp add: generate_answer_def try_generate_def chat_completions_create_def max_tokens_def Let_def
      split: sum.split list.split)

lemma search_block_init:
  "[''rules'' \<mapsto> ''MTGOfficialRules'', ''cards'' \<mapsto> ''MTGCards'', ''rulings'' \<mapsto> ''MTGRulings''] key = Some name \<Longrightarrow>
   L key = Some l \<Longrightarrow>
   search_block (init c g m) key q L T t =
     (case c t name q l of Inl e \<Rightarrow> [] | Inr objs \<Rightarrow> filter (\<lambda>ob. T \<le> score (metadata ob)) objs)"
  by (simp add: search_block_def try_search_def getitem_def init_def split: sum.split)

text \<open>
  Claim C9. When the caller omits the optional arguments, \<^verbatim>\<open>search_all_collections\<close> behaves
  as with the limits 3, 3, 3 and the threshold 0.7: it records them in the metadata and asks
  the search collaborator for 3 candidates of each collection, keeping those with a score
  of at least 0.7; \<^verbatim>\<open>generate_answer\<close> sends its request with temperature 0.1 and, whatever
  the temperature, with the output length 1000. Here 0.7 and 0.1 are the floats that these
  literals denote: the doubles nearest to seven tenths (a multiple of \<open>2\<^sup>-\<^sup>5\<^sup>3\<close>) and to one
  tenth (a multiple of \<open>2\<^sup>-\<^sup>5\<^sup>6\<close>).
\<close>

theorem defaults_used:
  "search_all_collections self now q None None t =
     search_all_collections self now q
       (Some [''rules'' \<mapsto> 3, ''cards'' \<mapsto> 3, ''rulings'' \<mapsto> 3]) (Some float_0_7) t \<and>
   search_metadata (search_all_collections self now q None None t) =
     Some \<lparr> md_query = Some q, md_timestamp = Some (now t),
            md_limits = Some [''rules'' \<mapsto> 3, ''cards'' \<mapsto> 3, ''rulings'' \<mapsto> 3],
            md_min_score = Some float_0_7 \<rparr> \<and>
   rules (search_all_collections (init c g m) now q None None t) =
     (case c (t + 1) ''MTGOfficialRules'' q 3 of
        Inl e \<Rightarrow> [] | Inr objs \<Rightarrow> filter (\<lambda>ob. float_0_7 \<le> score (metadata ob)) objs) \<and>
   cards (search_all_collections (init c g m) now q None None t) =
     (case c (t + 2) ''MTGCards'' q 3 of
        Inl e \<Rightarrow> [] | Inr objs \<Rightarrow> filter (\<lambda>ob. float_0_7 \<le> score (metadata ob)) objs) \<and>
   rulings (search_all_collections (init c g m) now q None None t) =
     (case c (t + 3) ''MTGRulings'' q 3 of
        Inl e \<Rightarrow> [] | Inr objs \<Rightarrow> filter (\<lambda>ob. float_0_7 \<le> score (metadata ob)) objs) \<and>
   generate_answer self question_text context_text None t =
     (case openai_client self t (model self)
             [(''system'', system_prompt), (''user'', user_prompt question_text context_text)]
             float_0_1 1000 of
        Inl e \<Rightarrow> ''I encountered an error while generating the answer: '' @ str_exn e
      | Inr [] \<Rightarrow> ''I encountered an error while generating the answer: list index out of range''
      | Inr (content # rest) \<Rightarrow> content) \<and>
   generate_answer self question_text context_text (Some temperature) t =
     (case openai_client self t (model self)
             [(''system'', system_prompt), (''user'', user_prompt question_text context_text)]
             temperature 1000 of
        Inl e \<Rightarrow> ''I encountered an error while generating the answer: '' @ str_exn e
      | Inr [] \<Rightarrow> ''I encountered an error while generating the answer: list index out of range''
      | Inr (content # rest) \<Rightarrow> content) \<and>
   float_0_7 = 6305039478318694 / 2 ^ 53 \<and>
   \<bar>6305039478318694 - 7 / 10 * 2 ^ 53\<bar> < (1 / 2 :: real) \<and>
   float_0_1 = 7205759403792794 / 2 ^ 56 \<and>
   \<bar>7205759403792794 - 1 / 10 * 2 ^ 56\<bar> < (1 / 2 :: real)"
proof -
  have a: "search_all_collections self now q None None t =
     search_all_collections self now q
       (Some [''rules'' \<mapsto> 3, ''cards'' \<mapsto> 3, ''rulings'' \<mapsto> 3]) (Some float_0_7) t"
    by (simp add: search_all_collections_def or_default_def default_limits_def default_min_score_def)
  have b: "search_metadata (search_all_collections self now q None None t) =
     Some \<lparr> md_query = Some q, md_timestamp = Some (now t),
            md_limits = Some [''rules'' \<mapsto> 3, ''cards'' \<mapsto> 3, ''rulings'' \<mapsto> 3],
            md_min_score = Some float_0_7 \<rparr>"
    by (simp add: search_all_collections_def or_default_def default_limits_def default_min_score_def Let_def)
  have c: "rules (search_all_collections (init c g m) now q None None t) =
     (case c (t + 1) ''MTGOfficialRules'' q 3 of
        Inl e \<Rightarrow> [] | Inr objs \<Rightarrow> filter (\<lambda>ob. float_0_7 \<le> score (metadata ob)) objs)"
    by (simp add: search_all_collections_def or_default_def default_limits_def default_min_score_def Let_def
        search_block_init)
  have d: "cards (search_all_collections (init c g m) now q None None t) =
     (case c (t + 2) ''MTGCards'' q 3 of
        Inl e \<Rightarrow> [] | Inr objs \<Rightarrow> filter (\<lambda>ob. float_0_7 \<le> score (metadata ob)) objs)"
    by (simp add: search_all_collections_def or_default_def default_limits_def default_min_score_def Let_def
        search_block_init)
  have e: "rulings (search_all_collections (init c g m) now q None None t) =
     (case c (t + 3) ''MTGRulings'' q 3 of
        Inl e \<Rightarrow> [] | Inr objs \<Rightarrow> filter (\<lambda>ob. float_0_7 \<le> score (metadata ob)) objs)"
    by (simp add: search_all_collections_def or_default_def default_limits_def default_min_score_def Let_def
        search_block_init)
  have v: "float_0_7 = 6305039478318694 / 2 ^ 53"
    "\<bar>6305039478318694 - 7 / 10 * 2 ^ 53\<bar> < (1 / 2 :: real)"
    "float_0_1 = 7205759403792794 / 2 ^ 56"
    "\<bar>7205759403792794 - 1 / 10 * 2 ^ 56\<bar> < (1 / 2 :: real)"
    by (simp_all add: float_0_7_def float_0_1_def)
  have g: "generate_answer self question_text context_text None t =
     (case openai_client self t (model self)
             [(''system'', system_prompt), (''user'', user_prompt question_text context_text)]
             float_0_1 1000 of
        Inl e \<Rightarrow> ''I encountered an error while generating the answer: '' @ str_exn e
      | Inr [] \<Rightarrow> ''I encountered an error while generating the answer: list index out of range''
      | Inr (content # rest) \<Rightarrow> content)"
    by (simp only: generate_answer_cases [of self question_text context_text] or_default_def
        default_temperature_def option.case)
  have h: "generate_answer self question_text context_text (Some temperature) t =
     (case openai_client self t (model self)
             [(''system'', system_prompt), (''user'', user_prompt question_text context_text)]
             temperature 1000 of
        Inl e \<Rightarrow> ''I encountered an error while generating the answer: '' @ str_exn e
      | Inr [] \<Rightarrow> ''I encountered an error while generating the answer: list index out of range''
      | Inr (content # rest) \<Rightarrow> content)"
    by (simp only: generate_answer_cases [of self question_text context_text] or_default_def option.case)
  show ?thesis
    by (intro conjI) (rule a b c d e g h v)+
qed

text \<open>A call without optional arguments on the stub environment; a score equal to the
  default threshold is retained.\<close>

theorem defaults_used_witness:
  "rules (search_all_collections (init demo_search demo_chat None) demo_now ''How does trample work?'' None None 0) =
     [demo_rule] \<and>
   cards (search_all_collections (init demo_search demo_chat None) demo_now ''How does trample work?'' None None 0) =
     [] \<and>
   score (metadata demo_borderline) = float_0_7 \<and>
   rules (search_all_collections (init (\<lambda>t name q l. Inr [demo_borderline]) demo_chat None) demo_now
       ''How does trample work?'' None None 0) = [demo_borderline] \<and>
   generate_answer demo_pipeline ''How does trample work?'' [] None 0 =
     ''Excess damage is dealt to the player.''"
proof -
  note d = defaults_used [where self = demo_pipeline and c = demo_search and g = demo_chat and m = None
      and now = demo_now and q = "''How does trample work?''" and t = 0
      and question_text = "''How does trample work?''" and context_text = "[]" and temperature = 0]
  note d' = defaults_used [where self = demo_pipeline and c = "\<lambda>t name q l. Inr [demo_borderline]"
      and g = demo_chat and m = None
      and now = demo_now and q = "''How does trample work?''" and t = 0
      and question_text = "''How does trample work?''" and context_text = "[]" and temperature = 0]
  have r: "rules (search_all_collections (init demo_search demo_chat None) demo_now ''How does trample work?'' None None 0) =
     (case demo_search (0 + 1) ''MTGOfficialRules'' ''How does trample work?'' 3 of
        Inl e \<Rightarrow> [] | Inr objs \<Rightarrow> filter (\<lambda>ob. float_0_7 \<le> score (metadata ob)) objs)"
    using d by blast
  have c: "cards (search_all_collections (init demo_search demo_chat None) demo_now ''How does trample work?'' None None 0) =
     (case demo_search (0 + 2) ''MTGCards'' ''How does trample work?'' 3 of
        Inl e \<Rightarrow> [] | Inr objs \<Rightarrow> filter (\<lambda>ob. float_0_7 \<le> score (metadata ob)) objs)"
    using d by blast
  have b: "rules (search_all_collections (init (\<lambda>t name q l. Inr [demo_borderline]) demo_chat None) demo_now
       ''How does trample work?'' None None 0) =
     (case (Inr [demo_borderline] :: exn + obj list) of
        Inl e \<Rightarrow> [] | Inr objs \<Rightarrow> filter (\<lambda>ob. float_0_7 \<le> score (metadata ob)) objs)"
    using d' by blast
  have g: "generate_answer demo_pipeline ''How does trample work?'' [] None 0 =
     (case openai_client demo_pipeline 0 (model demo_pipeline)
             [(''system'', system_prompt), (''user'', user_prompt ''How does trample work?'' [])]
             float_0_1 1000 of
        Inl e \<Rightarrow> ''I encountered an error while generating the answer: '' @ str_exn e
      | Inr [] \<Rightarrow> ''I encountered an error while generating the answer: list index out of range''
      | Inr (content # rest) \<Rightarrow> content)"
    using d by blast
  have "rules (search_all_collections (init demo_search demo_chat None) demo_now ''How does trample work?'' None None 0) =
     [demo_rule]"
    unfolding r by (simp add: demo_search_def demo_rule_def float_0_7_def)
  moreover have "cards (search_all_collections (init demo_search demo_chat None) demo_now ''How does trample work?'' None None 0) =
     []"
    unfolding c by (simp add: demo_search_def demo_card_def float_0_7_def)
  moreover have "score (metadata demo_borderline) = float_0_7"
    by (simp add: demo_borderline_def)
  moreover have "rules (search_all_collections (init (\<lambda>t name q l. Inr [demo_borderline]) demo_chat None) demo_now
       ''How does trample work?'' None None 0) = [demo_borderline]"
    unfolding b by (simp add: demo_borderline_def)
  moreover have "generate_answer demo_pipeline ''How does trample work?'' [] None 0 =
     ''Excess damage is dealt to the player.''"
    unfolding g by (simp add: demo_pipeline_def init_def demo_chat_def)
  ultimately show ?thesis by simp
qed

subsection \<open>Numbers\<close>

lemma digit_cases:
  "d < 10 \<Longrightarrow> d = 0 \<or> d = 1 \<or> d = 2 \<or> d = 3 \<or> d = 4 \<or> d = 5 \<or> d = 6 \<or> d = 7 \<or> d = 8 \<or> d = (9::nat)"
  by arith

lemma is_digit_digit_char: "d < 10 \<Longrightarrow> is_digit (digit_char d)"
  using digit_cases [of d] by (auto simp: is_digit_def digit_char_def)

lemma digit_value_digit_char: "d < 10 \<Longrightarrow> digit_value (digit_char d) = d"
  using digit_cases [of d] by (auto simp: digit_value_def digit_char_def)

lemma str_nat_digits: "str_nat n \<noteq> [] \<and> list_all is_digit (str_nat n)"
proof (induction n rule: str_nat.induct)
  case (1 n)
  show ?case
  proof (cases "n < 10")
    case True
    then show ?thesis by (simp add: str_nat.simps [of n] is_digit_digit_char)
  next
    case False
    with 1 show ?thesis by (simp add: str_nat.simps [of n] is_digit_digit_char)
  qed
qed

lemma nat_of_digits_snoc: "nat_of_digits (ds @ [c]) = 10 * nat_of_digits ds + digit_value c"
  by (simp add: nat_of_digits_def)

lemma nat_of_digits_str_nat: "nat_of_digits (str_nat n) = n"
proof (induction n rule: str_nat.induct)
  case (1 n)
  show ?case
  proof (cases "n < 10")
    case True
    then show ?thesis
      by (simp add: str_nat.simps [of n] nat_of_digits_def digit_value_digit_char)
  next
    case False
    with 1 have "nat_of_digits (str_nat (n div 10)) = n div 10" by simp
    with False show ?thesis
      by (simp add: str_nat.simps [of n] nat_of_digits_snoc digit_value_digit_char)
  qed
qed

lemma hd_str_nat: "is_digit (hd (str_nat n))"
  using str_nat_digits [of n] by (cases "str_nat n") simp_all

lemma round_half_even_near:
  assumes "0 \<le> y"
  shows "\<bar>real (round_half_even y) - y\<bar> \<le> 1 / 2"
proof -
  define d where "d = y - of_int \<lfloor>y\<rfloor>"
  have d: "0 \<le> d" "d < 1"
    unfolding d_def by linarith+
  from assms have fl: "real (nat \<lfloor>y\<rfloor>) = y - d"
    by (simp add: d_def)
  have r: "real (round_half_even y) =
      (if d < 1 / 2 then y - d else if d > 1 / 2 then y - d + 1
       else if even (nat \<lfloor>y\<rfloor>) then y - d else y - d + 1)"
    unfolding round_half_even_def Let_def d_def [symmetric] using fl by simp
  show ?thesis
    unfolding r using d by (simp split: if_splits)
qed

lemma thousandths_digits:
  fixes n :: nat
  shows "10 * (10 * (10 * (n div 1000) + n mod 1000 div 100) + n mod 1000 div 10 mod 10) + n mod 1000 mod 10 = n"
proof -
  have lin: "\<And>q f a g b c :: nat. n = 1000 * q + f \<Longrightarrow> f = 100 * a + g \<Longrightarrow> g = 10 * b + c \<Longrightarrow>
      10 * (10 * (10 * q + a) + b) + c = n"
    by simp
  have a: "n = 1000 * (n div 1000) + n mod 1000"
    by simp
  have b: "n mod 1000 = 100 * (n mod 1000 div 100) + n mod 1000 mod 100"
    by simp
  have c: "n mod 1000 mod 100 = 10 * (n mod 1000 div 10 mod 10) + n mod 1000 mod 10"
    using mod_mult2_eq [of "n mod 1000" 10 10] by simp
  show ?thesis
    by (rule lin [OF a b c])
qed

lemma format_3f_shape:
  "\<exists>ip d1 d2 d3.
     format_3f x = (if x < 0 then ''-'' else []) @ ip @ [CHR ''.'', d1, d2, d3] \<and>
     ip \<noteq> [] \<and> list_all is_digit ip \<and> is_digit d1 \<and> is_digit d2 \<and> is_digit d3 \<and>
     nat_of_digits (ip @ [d1, d2, d3]) = round_half_even (\<bar>x\<bar> * 1000)"
proof -
  define n where "n = round_half_even (\<bar>x\<bar> * 1000)"
  define frac where "frac = n mod 1000"
  have f: "frac div 100 < 10" "frac div 10 mod 10 < 10" "frac mod 10 < 10"
    unfolding frac_def by simp_all
  have v: "nat_of_digits (str_nat (n div 1000) @
      [digit_char (frac div 100), digit_char (frac div 10 mod 10), digit_char (frac mod 10)]) = n"
  proof -
    have "nat_of_digits (str_nat (n div 1000) @
        [digit_char (frac div 100), digit_char (frac div 10 mod 10), digit_char (frac mod 10)]) =
      10 * (10 * (10 * (n div 1000) + frac div 100) + frac div 10 mod 10) + frac mod 10"
      using nat_of_digits_snoc [of "str_nat (n div 1000) @ [digit_char (frac div 100), digit_char (frac div 10 mod 10)]"
          "digit_char (frac mod 10)"]
        nat_of_digits_snoc [of "str_nat (n div 1000) @ [digit_char (frac div 100)]" "digit_char (frac div 10 mod 10)"]
        nat_of_digits_snoc [of "str_nat (n div 1000)" "digit_char (frac div 100)"]
      by (simp add: nat_of_digits_str_nat digit_value_digit_char f)
    also have "\<dots> = n"
      unfolding frac_def by (rule thousandths_digits)
    finally show ?thesis .
  qed
  have "format_3f x = (if x < 0 then ''-'' else []) @ str_nat (n div 1000) @
      [CHR ''.'', digit_char (frac div 100), digit_char (frac div 10 mod 10), digit_char (frac mod 10)]"
    by (simp add: format_3f_def Let_def n_def frac_def)
  then show ?thesis
    using v f str_nat_digits [of "n div 1000"] is_digit_digit_char
    unfolding n_def by blast
qed

lemma not_digit_minus: "\<not> is_digit CHR ''-''" and not_digit_point: "\<not> is_digit CHR ''.''"
  by (simp_all add: is_digit_def)

lemma three_decimals_format_3f: "three_decimals (format_3f x)"
proof -
  from format_3f_shape [of x] obtain ip d1 d2 d3 where
    eq: "format_3f x = (if x < 0 then ''-'' else []) @ ip @ [CHR ''.'', d1, d2, d3]"
    and ip: "ip \<noteq> []" "list_all is_digit ip"
    and ds: "is_digit d1" "is_digit d2" "is_digit d3"
    by blast
  from ip have h: "hd ip \<noteq> CHR ''-''"
    using not_digit_minus by (cases ip) auto
  have body: "(if format_3f x \<noteq> [] \<and> hd (format_3f x) = CHR ''-'' then tl (format_3f x) else format_3f x) =
      ip @ [CHR ''.'', d1, d2, d3]"
    using ip(1) h by (simp add: eq hd_append)
  have len: "length (ip @ [CHR ''.'', d1, d2, d3]) = length ip + 4"
    by simp
  from ip(1) have pos: "Suc 0 \<le> length ip" by (cases ip) simp_all
  show ?thesis
    unfolding three_decimals_def Let_def body len
    using ip ds pos by (simp add: nth_append)
qed

lemma digits_format_3f:
  "\<bar>real (nat_of_digits (filter is_digit (format_3f x))) - \<bar>x\<bar> * 1000\<bar> \<le> 1 / 2"
proof -
  from format_3f_shape [of x] obtain ip d1 d2 d3 where
    eq: "format_3f x = (if x < 0 then ''-'' else []) @ ip @ [CHR ''.'', d1, d2, d3]"
    and ip: "list_all is_digit ip"
    and ds: "is_digit d1" "is_digit d2" "is_digit d3"
    and v: "nat_of_digits (ip @ [d1, d2, d3]) = round_half_even (\<bar>x\<bar> * 1000)"
    by blast
  from ip have "filter is_digit ip = ip"
    by (simp add: list_all_iff)
  then have "filter is_digit (format_3f x) = ip @ [d1, d2, d3]"
    using ds by (simp add: eq not_digit_minus not_digit_point)
  then show ?thesis
    using v round_half_even_near [of "\<bar>x\<bar> * 1000"] by simp
qed

subsection \<open>The parts of the context\<close>

lemma append_entries_eq:
  "append_entries line i obs parts = parts @ map (\<lambda>(k, ob). line k ob) (List.enumerate i obs)"
  by (induction obs arbitrary: i parts) simp_all

lemma add_section_eq: "add_section header line obs parts = parts @ spec_section header line obs"
  by (simp add: add_section_def spec_section_def append_entries_eq)

lemma context_parts_eq:
  "context_parts sr =
     [''SEARCH QUERY: '' @ or_default (md_query (get_search_metadata sr)) ''Unknown'',
      ''SEARCH TIMESTAMP: '' @ or_default (md_timestamp (get_search_metadata sr)) ''Unknown'',
      []] @
     spec_section ''=== OFFICIAL RULES ==='' rule_line (rules sr) @
     spec_section ''=== RELEVANT CARDS ==='' card_info (cards sr) @
     spec_section ''=== OFFICIAL RULINGS ==='' ruling_info (rulings sr)"
  by (simp add: context_parts_def Let_def add_section_eq)

lemma entry_prefixes:
  "prefix (entry_prefix i (score (metadata ob))) (rule_line i ob)"
  "prefix (entry_prefix i (score (metadata ob))) (card_info i ob)"
  "prefix (entry_prefix i (score (metadata ob))) (ruling_info i ob)"
  by (simp_all add: rule_line_def card_info_def ruling_info_def getattr_score_def Let_def)

lemma entry_starts_with_digit:
  assumes "prefix (entry_prefix i sc) p"
  shows "p \<noteq> [] \<and> is_digit (hd p)"
proof -
  from assms obtain r where "p = str_nat i @ ''. [Score: '' @ format_3f sc @ ''] '' @ r"
    by (auto simp: prefix_def entry_prefix_def)
  then show ?thesis
    using str_nat_digits [of i] hd_str_nat [of i] by (simp add: hd_append)
qed

lemma spec_section_members:
  assumes "p \<in> set (spec_section h line obs)"
  shows "p = h \<or> p = [] \<or> (\<exists>i ob. p = line i ob)"
  using assms by (auto simp: spec_section_def split: if_splits)

lemma header_not_in_section:
  assumes line: "\<And>i ob. prefix (entry_prefix i (score (metadata ob))) (line i ob)"
    and h: "h \<noteq> []" "\<not> is_digit (hd h)" "h \<noteq> h'"
  shows "h \<notin> set (spec_section h' line obs)"
proof
  assume "h \<in> set (spec_section h' line obs)"
  with h obtain i ob where "h = line i ob"
    using spec_section_members by blast
  with line [of i ob] entry_starts_with_digit h(2) show False
    by metis
qed

lemma header_in_own_section:
  assumes line: "\<And>i ob. prefix (entry_prefix i (score (metadata ob))) (line i ob)"
    and h: "h \<noteq> []" "\<not> is_digit (hd h)"
  shows "h \<in> set (spec_section h line obs) \<longleftrightarrow> obs \<noteq> []"
  by (simp add: spec_section_def)

lemma not_digit_equals: "\<not> is_digit CHR ''=''"
  by (simp add: is_digit_def)

lemma header_parts:
  "(''=== OFFICIAL RULES ==='' \<in> set (context_parts sr)) = (rules sr \<noteq> [])"
  "(''=== RELEVANT CARDS ==='' \<in> set (context_parts sr)) = (cards sr \<noteq> [])"
  "(''=== OFFICIAL RULINGS ==='' \<in> set (context_parts sr)) = (rulings sr \<noteq> [])"
proof -
  note out = header_not_in_section [OF entry_prefixes(1)] header_not_in_section [OF entry_prefixes(2)]
    header_not_in_section [OF entry_prefixes(3)]
  note own = header_in_own_section [OF entry_prefixes(1)] header_in_own_section [OF entry_prefixes(2)]
    header_in_own_section [OF entry_prefixes(3)]
  show "(''=== OFFICIAL RULES ==='' \<in> set (context_parts sr)) = (rules sr \<noteq> [])"
    by (simp add: context_parts_eq out own not_digit_equals)
  show "(''=== RELEVANT CARDS ==='' \<in> set (context_parts sr)) = (cards sr \<noteq> [])"
    by (simp add: context_parts_eq out own not_digit_equals)
  show "(''=== OFFICIAL RULINGS ==='' \<in> set (context_parts sr)) = (rulings sr \<noteq> [])"
    by (simp add: context_parts_eq out own not_digit_equals)
qed

subsection \<open>Text inside the joined lines\<close>

lemma sublist_across_separator:
  assumes "h \<noteq> []" "c \<notin> set h" "sublist h (x @ c # rest)"
  shows "sublist h x \<or> sublist h rest"
proof -
  from assms(3) consider "sublist h x" | "sublist h (c # rest)"
    | xs1 xs2 where "h = xs1 @ xs2" "suffix xs1 x" "prefix xs2 (c # rest)"
    unfolding sublist_append by blast
  then show ?thesis
  proof cases
    case 1
    then show ?thesis ..
  next
    case 2
    then have "prefix h (c # rest) \<or> sublist h rest"
      by (simp add: sublist_Cons_right)
    moreover have "\<not> prefix h (c # rest)"
      using assms(1,2) by (cases h) auto
    ultimately show ?thesis by blast
  next
    case 3
    have "xs2 = []"
    proof (cases xs2)
      case Nil
      then show ?thesis .
    next
      case (Cons a as)
      with 3(3) have "a = c" by simp
      with Cons 3(1) assms(2) show ?thesis by simp
    qed
    with 3(1,2) show ?thesis by auto
  qed
qed

lemma sublist_join:
  assumes "h \<noteq> []" "c \<notin> set h"
  shows "sublist h (join [c] parts) \<Longrightarrow> \<exists>p \<in> set parts. sublist h p"
proof (induction "[c]" parts rule: join.induct)
  case 1
  with assms(1) show ?case by simp
next
  case (2 x)
  then show ?case by simp
next
  case (3 x y ys)
  from "3.prems" have "sublist h (x @ c # join [c] (y # ys))"
    by simp
  with assms have "sublist h x \<or> sublist h (join [c] (y # ys))"
    by (rule sublist_across_separator)
  with "3.hyps" show ?case by auto
qed

lemma demo_results_eq:
  "demo_results =
     \<lparr> rules = [demo_rule], cards = [], rulings = [],
       search_metadata = Some \<lparr> md_query = Some ''How does trample work?'',
                                md_timestamp = Some ''2024-05-01T12:00:00'',
                                md_limits = Some demo_limits,
                                md_min_score = Some (7 / 10) \<rparr> \<rparr>"
  by (simp add: demo_results_def search_all_collections_def Let_def or_default_def search_block_def
      try_search_def getitem_def demo_collections demo_client demo_search_def demo_limits_def
      demo_rule_def demo_card_def demo_now_def str_nat.simps digit_char_def)

lemma format_3f_examples:
  "format_3f (9 / 10) = ''0.900''"
  "format_3f (17 / 20) = ''0.850''"
  "format_3f (4 / 5) = ''0.800''"
  "format_3f (1 / 2) = ''0.500''"
  by (simp_all add: format_3f_def round_half_even_def str_nat.simps digit_char_def)

lemma str_nat_examples: "str_nat 1 = ''1''" "str_nat (Suc 0) = ''1''" "str_nat 2 = ''2''"
  by (simp_all add: str_nat.simps digit_char_def)

lemma demo_results_text:
  "join ''\<newline>'' (context_parts demo_results) =
     ''SEARCH QUERY: How does trample work?\<newline>'' @
     ''SEARCH TIMESTAMP: 2024-05-01T12:00:00\<newline>'' @
     ''\<newline>'' @
     ''=== OFFICIAL RULES ===\<newline>'' @
     ''1. [Score: 0.900] 702.19b Trample assigns excess damage.\<newline>''"
  by (simp add: demo_results_eq context_parts_eq spec_section_def enumerate_eq_zip get_search_metadata_def
      or_default_def rule_line_def getattr_score_def get_default_def entry_prefix_def demo_rule_def
      format_3f_examples str_nat_examples)

text \<open>
  Claim C8. The formatted context is the parts joined by newlines, in this order: the query
  line, the timestamp line and an empty line; then, for each non-empty collection, in the
  order rules, cards, rulings: its header, one entry for each retained result in the
  retained order, numbered from 1, and an empty line. Every entry begins with its number in
  decimal digits and the score with exactly three digits after the point, the score
  rounded to the nearest thousandth.
\<close>

theorem context_layout:
  "format_context_for_llm self sr =
     join ''\<newline>''
       ([''SEARCH QUERY: '' @ or_default (md_query (get_search_metadata sr)) ''Unknown'',
         ''SEARCH TIMESTAMP: '' @ or_default (md_timestamp (get_search_metadata sr)) ''Unknown'',
         []] @
        spec_section ''=== OFFICIAL RULES ==='' rule_line (rules sr) @
        spec_section ''=== RELEVANT CARDS ==='' card_info (cards sr) @
        spec_section ''=== OFFICIAL RULINGS ==='' ruling_info (rulings sr)) \<and>
   prefix (entry_prefix i (score (metadata ob))) (rule_line i ob) \<and>
   prefix (entry_prefix i (score (metadata ob))) (card_info i ob) \<and>
   prefix (entry_prefix i (score (metadata ob))) (ruling_info i ob) \<and>
   entry_prefix i sc = str_nat i @ ''. [Score: '' @ format_3f sc @ ''] '' \<and>
   list_all is_digit (str_nat i) \<and> nat_of_digits (str_nat i) = i \<and>
   three_decimals (format_3f sc) \<and>
   \<bar>real (nat_of_digits (filter is_digit (format_3f sc))) - \<bar>sc\<bar> * 1000\<bar> \<le> 1 / 2"
  using str_nat_digits [of i] entry_prefixes [of i ob]
  by (simp only: format_context_for_llm_def context_parts_eq entry_prefix_def
      nat_of_digits_str_nat three_decimals_format_3f digits_format_3f simp_thms)

text \<open>The example of the specification, as text.\<close>

theorem context_layout_witness:
  "format_context_for_llm demo_pipeline demo_results =
     ''SEARCH QUERY: How does trample work?\<newline>'' @
     ''SEARCH TIMESTAMP: 2024-05-01T12:00:00\<newline>'' @
     ''\<newline>'' @
     ''=== OFFICIAL RULES ===\<newline>'' @
     ''1. [Score: 0.900] 702.19b Trample assigns excess damage.\<newline>'' \<and>
   three_decimals (format_3f (9 / 10)) \<and> format_3f (9 / 10) = ''0.900''"
proof -
  note t = context_layout [where self = demo_pipeline and sr = demo_results and sc = "9 / 10"]
  have "format_context_for_llm demo_pipeline demo_results =
     join ''\<newline>''
       ([''SEARCH QUERY: '' @ or_default (md_query (get_search_metadata demo_results)) ''Unknown'',
         ''SEARCH TIMESTAMP: '' @ or_default (md_timestamp (get_search_metadata demo_results)) ''Unknown'',
         []] @
        spec_section ''=== OFFICIAL RULES ==='' rule_line (rules demo_results) @
        spec_section ''=== RELEVANT CARDS ==='' card_info (cards demo_results) @
        spec_section ''=== OFFICIAL RULINGS ==='' ruling_info (rulings demo_results))"
    using t by blast
  also have "\<dots> = join ''\<newline>'' (context_parts demo_results)"
    by (simp only: context_parts_eq)
  finally have "format_context_for_llm demo_pipeline demo_results =
     ''SEARCH QUERY: How does trample work?\<newline>'' @
     ''SEARCH TIMESTAMP: 2024-05-01T12:00:00\<newline>'' @
     ''\<newline>'' @
     ''=== OFFICIAL RULES ===\<newline>'' @
     ''1. [Score: 0.900] 702.19b Trample assigns excess damage.\<newline>''"
    by (simp only: demo_results_text)
  moreover from t have "three_decimals (format_3f (9 / 10))"
    by blast
  ultimately show ?thesis
    by (simp only: format_3f_examples simp_thms)
qed

subsection \<open>Fields of an entry\<close>

lemma segment_step:
  "(if get_default p k [] \<noteq> [] then x @ before @ get_default p k [] @ after else x) =
     x @ optional_segment before (p k) after"
  by (cases "p k") (simp_all add: get_default_def optional_segment_def)

lemma segment_step_end:
  "(if get_default p k [] \<noteq> [] then x @ before @ get_default p k [] else x) =
     x @ optional_segment before (p k) []"
  by (cases "p k") (simp_all add: get_default_def optional_segment_def)

lemma power_toughness_step:
  "(if get_default p k [] \<noteq> [] \<and> get_default p k' [] \<noteq> []
    then x @ '' ('' @ get_default p k [] @ ''/'' @ get_default p k' [] @ '')'' else x) =
     x @ power_toughness_segment (p k) (p k')"
  by (cases "p k"; cases "p k'") (simp_all add: get_default_def power_toughness_segment_def)

lemma get_default_or_default: "get_default p k d = or_default (p k) d"
  by (simp add: get_default_def or_default_def)

lemma plain_segment: "or_default field [] = optional_segment [] field []"
  by (cases field) (simp_all add: or_default_def optional_segment_def)

lemma rule_line_eq:
  "rule_line i ob = entry_prefix i (score (metadata ob)) @ optional_segment [] (properties ob ''rule'') []"
  unfolding rule_line_def Let_def getattr_score_def get_default_or_default plain_segment ..

lemma card_info_eq:
  "card_info i ob =
     entry_prefix i (score (metadata ob)) @
     or_default (properties ob ''name'') ''Unknown Card'' @
     optional_segment '' '' (properties ob ''manacost'') [] @
     optional_segment '' - '' (properties ob ''type'') [] @
     power_toughness_segment (properties ob ''power'') (properties ob ''toughness'') @
     optional_segment ''\<newline>   Text: '' (properties ob ''text'') []"
  unfolding card_info_def Let_def getattr_score_def segment_step_end power_toughness_step
  unfolding get_default_or_default
  by (simp only: append_assoc)

lemma ruling_info_eq:
  "ruling_info i ob =
     entry_prefix i (score (metadata ob)) @
     or_default (properties ob ''name'') ''Unknown Card'' @
     optional_segment '' ('' (properties ob ''ruling_date'') '')'' @
     optional_segment '' - Source: '' (properties ob ''source'') [] @
     ''\<newline>   Ruling: '' @
     optional_segment [] (properties ob ''rulings'') []"
  unfolding ruling_info_def Let_def getattr_score_def segment_step segment_step_end
  unfolding get_default_or_default plain_segment
  by (simp only: append_assoc)

text \<open>The claim as stated fails for a ruling without properties: the fallback name and
  the label of the ruling text are rendered.\<close>

theorem missing_field_rendered_counterexample:
  "properties demo_ruling_bare ''name'' = None \<and>
   properties demo_ruling_bare ''rulings'' = None \<and>
   format_context_for_llm demo_pipeline
       \<lparr> rules = [], cards = [], rulings = [demo_ruling_bare], search_metadata = None \<rparr> =
     ''SEARCH QUERY: Unknown\<newline>'' @
     ''SEARCH TIMESTAMP: Unknown\<newline>'' @
     ''\<newline>'' @
     ''=== OFFICIAL RULINGS ===\<newline>'' @
     ''1. [Score: 0.800] '' @ ''Unknown Card'' @ ''\<newline>'' @
     ''   Ruling: '' @ ''\<newline>''"
  by (simp add: format_context_for_llm_def context_parts_eq spec_section_def enumerate_eq_zip
      get_search_metadata_def or_default_def ruling_info_eq optional_segment_def entry_prefix_def
      demo_ruling_bare_def format_3f_examples str_nat_examples)

text \<open>
  Claim C6, amended. An entry is its number and score followed by the segments of its
  fields, and the segment of a field that is missing from the properties (or empty) is
  empty: nothing is rendered for a missing rule text, mana cost (key \<^verbatim>\<open>manacost\<close>), type,
  card text, ruling date or source; power and toughness are rendered only when both are
  present. Two fields are rendered in every case: a missing name as \<^verbatim>\<open>Unknown Card\<close>, and
  the ruling text behind its label, the label standing alone when the text is missing.
\<close>

theorem missing_fields_omitted:
  "rule_line i ob =
     entry_prefix i (score (metadata ob)) @ optional_segment [] (properties ob ''rule'') [] \<and>
   card_info i ob =
     entry_prefix i (score (metadata ob)) @
     or_default (properties ob ''name'') ''Unknown Card'' @
     optional_segment '' '' (properties ob ''manacost'') [] @
     optional_segment '' - '' (properties ob ''type'') [] @
     power_toughness_segment (properties ob ''power'') (properties ob ''toughness'') @
     optional_segment ''\<newline>   Text: '' (properties ob ''text'') [] \<and>
   ruling_info i ob =
     entry_prefix i (score (metadata ob)) @
     or_default (properties ob ''name'') ''Unknown Card'' @
     optional_segment '' ('' (properties ob ''ruling_date'') '')'' @
     optional_segment '' - Source: '' (properties ob ''source'') [] @
     ''\<newline>   Ruling: '' @
     optional_segment [] (properties ob ''rulings'') [] \<and>
   optional_segment before None after = [] \<and>
   power_toughness_segment None toughness_field = [] \<and>
   power_toughness_segment power_field None = []"
  by (simp add: rule_line_eq card_info_eq ruling_info_eq optional_segment_def power_toughness_segment_def
      split: option.split)

text \<open>A card without card text and without the key \<^verbatim>\<open>manacost\<close>, and a ruling without
  any property.\<close>

theorem missing_fields_omitted_witness:
  "properties demo_card ''text'' = None \<and>
   properties demo_card ''manacost'' = None \<and>
   card_info 2 demo_card = ''2. [Score: 0.500] Colossal Dreadmaw - Creature (6/6)'' \<and>
   ruling_info 1 demo_ruling_bare = ''1. [Score: 0.800] Unknown Card\<newline>   Ruling: ''"
proof -
  note t = missing_fields_omitted [where i = 2 and ob = demo_card]
    missing_fields_omitted [where i = 1 and ob = demo_ruling_bare]
  have c: "card_info 2 demo_card =
     entry_prefix 2 (score (metadata demo_card)) @
     or_default (properties demo_card ''name'') ''Unknown Card'' @
     optional_segment '' '' (properties demo_card ''manacost'') [] @
     optional_segment '' - '' (properties demo_card ''type'') [] @
     power_toughness_segment (properties demo_card ''power'') (properties demo_card ''toughness'') @
     optional_segment ''\<newline>   Text: '' (properties demo_card ''text'') []"
    using t(1) by blast
  have r: "ruling_info 1 demo_ruling_bare =
     entry_prefix 1 (score (metadata demo_ruling_bare)) @
     or_default (properties demo_ruling_bare ''name'') ''Unknown Card'' @
     optional_segment '' ('' (properties demo_ruling_bare ''ruling_date'') '')'' @
     optional_segment '' - Source: '' (properties demo_ruling_bare ''source'') [] @
     ''\<newline>   Ruling: '' @
     optional_segment [] (properties demo_ruling_bare ''rulings'') []"
    using t(2) by blast
  show ?thesis
    unfolding c r
    by (simp add: demo_card_def demo_ruling_bare_def or_default_def optional_segment_def
        power_toughness_segment_def entry_prefix_def format_3f_examples str_nat_examples)
qed

subsection \<open>The text of a header\<close>

lemma set_spec_section:
  "set (spec_section h line obs) =
     (if obs = [] then {} else insert h (insert [] (set (entry_lines line obs))))"
  by (auto simp: spec_section_def entry_lines_def)

lemma entry_lines_member:
  assumes "p \<in> set (entry_lines line obs)"
  shows "\<exists>i ob. ob \<in> set obs \<and> p = line i ob"
  using assms by (auto simp: entry_lines_def enumerate_eq_zip dest: in_set_zipE)

lemma member_sublist_join: "p \<in> set ps \<Longrightarrow> sublist p (join sep ps)"
proof (induction sep ps rule: join.induct)
  case (1 sep)
  then show ?case by simp
next
  case (2 sep x)
  then show ?case by simp
next
  case (3 sep x y ys)
  show ?case
  proof (cases "p = x")
    case True
    then show ?thesis by simp
  next
    case False
    with 3 have "sublist p (join sep (y # ys))" by simp
    then have "sublist p ((x @ sep) @ join sep (y # ys))"
      by (rule sublist_order.order.trans) (rule suffix_imp_sublist, simp add: suffix_def)
    then show ?thesis by simp
  qed
qed

lemma header_text_iff:
  assumes h: "h \<noteq> []" "CHR ''\<newline>'' \<notin> set h"
    and parts: "parts = ml @ spec_section h1 l1 o1 @ spec_section h2 l2 o2"
    and other: "\<not> sublist h h1" "\<not> sublist h h2"
  shows "sublist h (join ''\<newline>'' parts) \<longleftrightarrow>
         (\<exists>p \<in> set (ml @ entry_lines l1 o1 @ entry_lines l2 o2). sublist h p)"
proof
  assume "sublist h (join ''\<newline>'' parts)"
  with h obtain p where p: "p \<in> set parts" "sublist h p"
    using sublist_join [of h "CHR ''\<newline>''" parts] by blast
  from p(2) h(1) have "p \<noteq> []" by auto
  with p other show "\<exists>p \<in> set (ml @ entry_lines l1 o1 @ entry_lines l2 o2). sublist h p"
    unfolding parts by (auto simp: set_spec_section split: if_splits)
next
  assume "\<exists>p \<in> set (ml @ entry_lines l1 o1 @ entry_lines l2 o2). sublist h p"
  then obtain p where p: "p \<in> set (ml @ entry_lines l1 o1 @ entry_lines l2 o2)" "sublist h p"
    by blast
  have e: "entry_lines l [] = []" for l :: "nat \<Rightarrow> obj \<Rightarrow> string"
    by (simp add: entry_lines_def)
  from p(1) have "p \<in> set parts"
    unfolding parts by (cases "o1 = []"; cases "o2 = []") (auto simp: set_spec_section e)
  then have "sublist p (join ''\<newline>'' parts)"
    by (rule member_sublist_join)
  with p(2) show "sublist h (join ''\<newline>'' parts)"
    by (rule sublist_order.order.trans)
qed

lemma no_equals_digits:
  assumes "list_all is_digit ds"
  shows "CHR ''='' \<notin> set ds"
proof
  assume "CHR ''='' \<in> set ds"
  with assms have "is_digit CHR ''=''"
    by (simp add: list_all_iff)
  with not_digit_equals show False ..
qed

lemma no_equals_format_3f: "CHR ''='' \<notin> set (format_3f x)"
proof -
  from format_3f_shape [of x] obtain ip d1 d2 d3 where
    eq: "format_3f x = (if x < 0 then ''-'' else []) @ ip @ [CHR ''.'', d1, d2, d3]"
    and ip: "list_all is_digit ip"
    and ds: "is_digit d1" "is_digit d2" "is_digit d3"
    by blast
  from ds have "d1 \<noteq> CHR ''=''" "d2 \<noteq> CHR ''=''" "d3 \<noteq> CHR ''=''"
    using not_digit_equals by auto
  with no_equals_digits [OF ip] show ?thesis
    unfolding eq by auto
qed

lemma no_equals_entry_prefix: "CHR ''='' \<notin> set (entry_prefix i sc)"
  using str_nat_digits [of i] no_equals_digits no_equals_format_3f [of sc]
  by (simp add: entry_prefix_def)

lemma no_equals_segment:
  assumes "c \<notin> set before" "c \<notin> set after" "c \<notin> set (or_default field [])"
  shows "c \<notin> set (optional_segment before field after)"
  using assms by (cases field) (simp_all add: optional_segment_def or_default_def)

lemma no_equals_power_toughness:
  assumes "CHR ''='' \<notin> set (or_default pw [])" "CHR ''='' \<notin> set (or_default tg [])"
  shows "CHR ''='' \<notin> set (power_toughness_segment pw tg)"
  using assms by (cases pw; cases tg) (simp_all add: power_toughness_segment_def or_default_def)

lemma no_equals_name:
  assumes "CHR ''='' \<notin> set (or_default field [])"
  shows "CHR ''='' \<notin> set (or_default field ''Unknown Card'')"
  using assms by (cases field) (simp_all add: or_default_def)

lemma no_equals_entries:
  assumes "\<forall>k \<in> set read_properties. CHR ''='' \<notin> set (or_default (properties ob k) [])"
  shows "CHR ''='' \<notin> set (rule_line i ob)"
    and "CHR ''='' \<notin> set (card_info i ob)"
    and "CHR ''='' \<notin> set (ruling_info i ob)"
proof -
  from assms have k: "CHR ''='' \<notin> set (or_default (properties ob ''rule'') [])"
    "CHR ''='' \<notin> set (or_default (properties ob ''name'') [])"
    "CHR ''='' \<notin> set (or_default (properties ob ''text'') [])"
    "CHR ''='' \<notin> set (or_default (properties ob ''type'') [])"
    "CHR ''='' \<notin> set (or_default (properties ob ''manacost'') [])"
    "CHR ''='' \<notin> set (or_default (properties ob ''power'') [])"
    "CHR ''='' \<notin> set (or_default (properties ob ''toughness'') [])"
    "CHR ''='' \<notin> set (or_default (properties ob ''rulings'') [])"
    "CHR ''='' \<notin> set (or_default (properties ob ''ruling_date'') [])"
    "CHR ''='' \<notin> set (or_default (properties ob ''source'') [])"
    by (simp_all add: read_properties_def)
  show "CHR ''='' \<notin> set (rule_line i ob)"
    unfolding rule_line_eq using k(1)
    by (simp add: no_equals_entry_prefix no_equals_segment)
  show "CHR ''='' \<notin> set (card_info i ob)"
    unfolding card_info_eq using k
    by (simp add: no_equals_entry_prefix no_equals_segment no_equals_power_toughness no_equals_name)
  show "CHR ''='' \<notin> set (ruling_info i ob)"
    unfolding ruling_info_eq using k
    by (simp add: no_equals_entry_prefix no_equals_segment no_equals_name)
qed

lemma content_strings_member:
  assumes "ob \<in> set (rules sr) \<union> set (cards sr) \<union> set (rulings sr)" "k \<in> set read_properties"
  shows "or_default (properties ob k) [] \<in> set (content_strings sr)"
  using assms by (auto simp: content_strings_def)

lemma no_equals_parts:
  assumes free: "\<forall>s \<in> set (content_strings sr). CHR ''='' \<notin> set s"
    and p: "p \<in> set (metadata_lines sr @ entry_lines rule_line (rules sr) @
               entry_lines card_info (cards sr) @ entry_lines ruling_info (rulings sr))"
  shows "CHR ''='' \<notin> set p"
proof -
  have ob: "\<forall>k \<in> set read_properties. CHR ''='' \<notin> set (or_default (properties ob k) [])"
    if "ob \<in> set (rules sr) \<union> set (cards sr) \<union> set (rulings sr)" for ob
    using free content_strings_member [OF that] by blast
  from p consider "p \<in> set (metadata_lines sr)" | "p \<in> set (entry_lines rule_line (rules sr))"
    | "p \<in> set (entry_lines card_info (cards sr))" | "p \<in> set (entry_lines ruling_info (rulings sr))"
    by auto
  then show ?thesis
  proof cases
    case 1
    with free show ?thesis
      by (auto simp: metadata_lines_def content_strings_def)
  next
    case 2
    then obtain i ob where "ob \<in> set (rules sr)" "p = rule_line i ob"
      using entry_lines_member by blast
    with ob [of ob] no_equals_entries(1) show ?thesis by simp
  next
    case 3
    then obtain i ob where "ob \<in> set (cards sr)" "p = card_info i ob"
      using entry_lines_member by blast
    with ob [of ob] no_equals_entries(2) show ?thesis by simp
  next
    case 4
    then obtain i ob where "ob \<in> set (rulings sr)" "p = ruling_info i ob"
      using entry_lines_member by blast
    with ob [of ob] no_equals_entries(3) show ?thesis by simp
  qed
qed

lemma sublist_has_equals:
  assumes "sublist h p" "CHR ''='' \<in> set h"
  shows "CHR ''='' \<in> set p"
  using assms set_mono_sublist by blast

lemma headers_apart:
  "\<not> sublist ''=== OFFICIAL RULES ==='' ''=== RELEVANT CARDS ===''"
  "\<not> sublist ''=== OFFICIAL RULES ==='' ''=== OFFICIAL RULINGS ===''"
  "\<not> sublist ''=== RELEVANT CARDS ==='' ''=== OFFICIAL RULES ===''"
  "\<not> sublist ''=== RELEVANT CARDS ==='' ''=== OFFICIAL RULINGS ===''"
  "\<not> sublist ''=== OFFICIAL RULINGS ==='' ''=== OFFICIAL RULES ===''"
  "\<not> sublist ''=== OFFICIAL RULINGS ==='' ''=== RELEVANT CARDS ===''"
  by (simp_all add: sublist_code)

lemma empty_section: "spec_section h line [] = []" "entry_lines line [] = []"
  by (simp_all add: spec_section_def entry_lines_def)

lemma context_parts_sections:
  "context_parts sr =
     metadata_lines sr @
     spec_section ''=== OFFICIAL RULES ==='' rule_line (rules sr) @
     spec_section ''=== RELEVANT CARDS ==='' card_info (cards sr) @
     spec_section ''=== OFFICIAL RULINGS ==='' ruling_info (rulings sr)"
  by (simp add: context_parts_eq metadata_lines_def)

lemma empty_rules:
  assumes "rules sr = []"
  shows "context_parts sr =
           metadata_lines sr @
           spec_section ''=== RELEVANT CARDS ==='' card_info (cards sr) @
           spec_section ''=== OFFICIAL RULINGS ==='' ruling_info (rulings sr)"
    and "sublist ''=== OFFICIAL RULES ==='' (format_context_for_llm self sr) =
           (\<exists>p \<in> set (metadata_lines sr @ entry_lines card_info (cards sr) @
                        entry_lines ruling_info (rulings sr)).
              sublist ''=== OFFICIAL RULES ==='' p)"
proof -
  show parts: "context_parts sr =
           metadata_lines sr @
           spec_section ''=== RELEVANT CARDS ==='' card_info (cards sr) @
           spec_section ''=== OFFICIAL RULINGS ==='' ruling_info (rulings sr)"
    using assms by (simp add: context_parts_sections empty_section)
  show "sublist ''=== OFFICIAL RULES ==='' (format_context_for_llm self sr) =
           (\<exists>p \<in> set (metadata_lines sr @ entry_lines card_info (cards sr) @
                        entry_lines ruling_info (rulings sr)).
              sublist ''=== OFFICIAL RULES ==='' p)"
    unfolding format_context_for_llm_def
    by (rule header_text_iff [OF _ _ parts headers_apart(1,2)]) simp_all
qed

lemma empty_cards:
  assumes "cards sr = []"
  shows "context_parts sr =
           metadata_lines sr @
           spec_section ''=== OFFICIAL RULES ==='' rule_line (rules sr) @
           spec_section ''=== OFFICIAL RULINGS ==='' ruling_info (rulings sr)"
    and "sublist ''=== RELEVANT CARDS ==='' (format_context_for_llm self sr) =
           (\<exists>p \<in> set (metadata_lines sr @ entry_lines rule_line (rules sr) @
                        entry_lines ruling_info (rulings sr)).
              sublist ''=== RELEVANT CARDS ==='' p)"
proof -
  show parts: "context_parts sr =
           metadata_lines sr @
           spec_section ''=== OFFICIAL RULES ==='' rule_line (rules sr) @
           spec_section ''=== OFFICIAL RULINGS ==='' ruling_info (rulings sr)"
    using assms by (simp add: context_parts_sections empty_section)
  show "sublist ''=== RELEVANT CARDS ==='' (format_context_for_llm self sr) =
           (\<exists>p \<in> set (metadata_lines sr @ entry_lines rule_line (rules sr) @
                        entry_lines ruling_info (rulings sr)).
              sublist ''=== RELEVANT CARDS ==='' p)"
    unfolding format_context_for_llm_def
    by (rule header_text_iff [OF _ _ parts headers_apart(3,4)]) simp_all
qed

lemma empty_rulings:
  assumes "rulings sr = []"
  shows "context_parts sr =
           metadata_lines sr @
           spec_section ''=== OFFICIAL RULES ==='' rule_line (rules sr) @
           spec_section ''=== RELEVANT CARDS ==='' card_info (cards sr)"
    and "sublist ''=== OFFICIAL RULINGS ==='' (format_context_for_llm self sr) =
           (\<exists>p \<in> set (metadata_lines sr @ entry_lines rule_line (rules sr) @
                        entry_lines card_info (cards sr)).
              sublist ''=== OFFICIAL RULINGS ==='' p)"
proof -
  show parts: "context_parts sr =
           metadata_lines sr @
           spec_section ''=== OFFICIAL RULES ==='' rule_line (rules sr) @
           spec_section ''=== RELEVANT CARDS ==='' card_info (cards sr)"
    using assms by (simp add: context_parts_sections empty_section)
  show "sublist ''=== OFFICIAL RULINGS ==='' (format_context_for_llm self sr) =
           (\<exists>p \<in> set (metadata_lines sr @ entry_lines rule_line (rules sr) @
                        entry_lines card_info (cards sr)).
              sublist ''=== OFFICIAL RULINGS ==='' p)"
    unfolding format_context_for_llm_def
    by (rule header_text_iff [OF _ _ parts headers_apart(5,6)]) simp_all
qed

lemma no_header_text:
  assumes free: "\<forall>s \<in> set (content_strings sr). CHR ''='' \<notin> set s"
  shows "rules sr = [] \<Longrightarrow> \<not> sublist ''=== OFFICIAL RULES ==='' (format_context_for_llm self sr)"
    and "cards sr = [] \<Longrightarrow> \<not> sublist ''=== RELEVANT CARDS ==='' (format_context_for_llm self sr)"
    and "rulings sr = [] \<Longrightarrow> \<not> sublist ''=== OFFICIAL RULINGS ==='' (format_context_for_llm self sr)"
proof -
  have none: "\<not> sublist h p"
    if "CHR ''='' \<in> set h"
      and "p \<in> set (metadata_lines sr @ entry_lines rule_line (rules sr) @
               entry_lines card_info (cards sr) @ entry_lines ruling_info (rulings sr))" for h p
    using that no_equals_parts [OF free that(2)] sublist_has_equals by blast
  show "\<not> sublist ''=== OFFICIAL RULES ==='' (format_context_for_llm self sr)" if "rules sr = []"
    unfolding empty_rules(2) [OF that] using none [of "''=== OFFICIAL RULES ===''"] by auto
  show "\<not> sublist ''=== RELEVANT CARDS ==='' (format_context_for_llm self sr)" if "cards sr = []"
    unfolding empty_cards(2) [OF that] using none [of "''=== RELEVANT CARDS ===''"] by auto
  show "\<not> sublist ''=== OFFICIAL RULINGS ==='' (format_context_for_llm self sr)" if "rulings sr = []"
    unfolding empty_rulings(2) [OF that] using none [of "''=== OFFICIAL RULINGS ===''"] by auto
qed

text \<open>
  Claim C5, amended. For each collection on its own: the formatter appends the section
  header of the collection exactly when the list of the collection is not empty. For an
  empty list it appends nothing at all for the collection, neither a header nor an empty
  section: the parts are the metadata lines and the sections of the other two collections.
  The query, the timestamp and the properties are copied into their parts unchanged, so
  the header text of an empty collection stands in the formatted context exactly when it
  stands within a metadata line or an entry of another collection; it is absent whenever
  the character \<^verbatim>\<open>=\<close> occurs in none of the query, the timestamp and the properties that the
  formatter reads.
\<close>

theorem empty_collection_no_header:
  "((''=== OFFICIAL RULES ==='' \<in> set (context_parts sr)) = (rules sr \<noteq> [])) \<and>
   ((''=== RELEVANT CARDS ==='' \<in> set (context_parts sr)) = (cards sr \<noteq> [])) \<and>
   ((''=== OFFICIAL RULINGS ==='' \<in> set (context_parts sr)) = (rulings sr \<noteq> [])) \<and>
   (rules sr = [] \<longrightarrow>
      context_parts sr =
        metadata_lines sr @
        spec_section ''=== RELEVANT CARDS ==='' card_info (cards sr) @
        spec_section ''=== OFFICIAL RULINGS ==='' ruling_info (rulings sr) \<and>
      sublist ''=== OFFICIAL RULES ==='' (format_context_for_llm self sr) =
        (\<exists>p \<in> set (metadata_lines sr @ entry_lines card_info (cards sr) @
                     entry_lines ruling_info (rulings sr)).
           sublist ''=== OFFICIAL RULES ==='' p)) \<and>
   (cards sr = [] \<longrightarrow>
      context_parts sr =
        metadata_lines sr @
        spec_section ''=== OFFICIAL RULES ==='' rule_line (rules sr) @
        spec_section ''=== OFFICIAL RULINGS ==='' ruling_info (rulings sr) \<and>
      sublist ''=== RELEVANT CARDS ==='' (format_context_for_llm self sr) =
        (\<exists>p \<in> set (metadata_lines sr @ entry_lines rule_line (rules sr) @
                     entry_lines ruling_info (rulings sr)).
           sublist ''=== RELEVANT CARDS ==='' p)) \<and>
   (rulings sr = [] \<longrightarrow>
      context_parts sr =
        metadata_lines sr @
        spec_section ''=== OFFICIAL RULES ==='' rule_line (rules sr) @
        spec_section ''=== RELEVANT CARDS ==='' card_info (cards sr) \<and>
      sublist ''=== OFFICIAL RULINGS ==='' (format_context_for_llm self sr) =
        (\<exists>p \<in> set (metadata_lines sr @ entry_lines rule_line (rules sr) @
                     entry_lines card_info (cards sr)).
           sublist ''=== OFFICIAL RULINGS ==='' p)) \<and>
   ((\<forall>s \<in> set (content_strings sr). CHR ''='' \<notin> set s) \<longrightarrow>
      (rules sr = [] \<longrightarrow> \<not> sublist ''=== OFFICIAL RULES ==='' (format_context_for_llm self sr)) \<and>
      (cards sr = [] \<longrightarrow> \<not> sublist ''=== RELEVANT CARDS ==='' (format_context_for_llm self sr)) \<and>
      (rulings sr = [] \<longrightarrow> \<not> sublist ''=== OFFICIAL RULINGS ==='' (format_context_for_llm self sr)))"
  by (intro conjI impI)
    (rule header_parts empty_rules empty_cards empty_rulings no_header_text; assumption)+

text \<open>The claim as stated fails when the query itself quotes a header: no rule is
  retained, yet the header text stands in the formatted context.\<close>

theorem empty_collection_header_text_counterexample:
  "rules demo_quoting_results = [] \<and>
   sublist ''=== OFFICIAL RULES ==='' (format_context_for_llm demo_pipeline demo_quoting_results)"
proof -
  have "format_context_for_llm demo_pipeline demo_quoting_results =
      ''SEARCH QUERY: What goes under '' @ ''=== OFFICIAL RULES ==='' @
      '' ?\<newline>SEARCH TIMESTAMP: 2024-05-01T12:00:00\<newline>''"
    by (simp add: format_context_for_llm_def context_parts_eq spec_section_def demo_quoting_results_def
        get_search_metadata_def or_default_def)
  then show ?thesis
    by (simp only: sublist_appendI) (simp add: demo_quoting_results_def)
qed

text \<open>The example of the specification: one rule retained, the card filtered out, the
  rulings search failed.\<close>

theorem empty_collection_no_header_witness:
  "cards demo_results = [] \<and>
   list_all (\<lambda>s. CHR ''='' \<notin> set s) (content_strings demo_results) \<and>
   context_parts demo_results =
     [''SEARCH QUERY: How does trample work?'', ''SEARCH TIMESTAMP: 2024-05-01T12:00:00'', [],
      ''=== OFFICIAL RULES ==='', ''1. [Score: 0.900] 702.19b Trample assigns excess damage.'', []] \<and>
   ''=== RELEVANT CARDS ==='' \<notin> set (context_parts demo_results) \<and>
   \<not> sublist ''=== RELEVANT CARDS ==='' (format_context_for_llm demo_pipeline demo_results)"
proof -
  note t = empty_collection_no_header [where sr = demo_results and self = demo_pipeline]
  have c: "cards demo_results = []" and g: "rulings demo_results = []"
    by (simp_all add: demo_results_eq)
  have free: "\<forall>s \<in> set (content_strings demo_results). CHR ''='' \<notin> set s"
    by (simp add: content_strings_def read_properties_def demo_results_eq get_search_metadata_def
        or_default_def demo_rule_def)
  from t c have "context_parts demo_results =
        metadata_lines demo_results @
        spec_section ''=== OFFICIAL RULES ==='' rule_line (rules demo_results) @
        spec_section ''=== OFFICIAL RULINGS ==='' ruling_info (rulings demo_results)"
    by blast
  then have parts: "context_parts demo_results =
     [''SEARCH QUERY: How does trample work?'', ''SEARCH TIMESTAMP: 2024-05-01T12:00:00'', [],
      ''=== OFFICIAL RULES ==='', ''1. [Score: 0.900] 702.19b Trample assigns excess damage.'', []]"
    by (simp add: demo_results_eq metadata_lines_def spec_section_def enumerate_eq_zip get_search_metadata_def
      or_default_def rule_line_def getattr_score_def get_default_def entry_prefix_def demo_rule_def
      format_3f_examples str_nat_examples)
  from t c have a: "''=== RELEVANT CARDS ==='' \<notin> set (context_parts demo_results)"
    by blast
  from t c free have b: "\<not> sublist ''=== RELEVANT CARDS ==='' (format_context_for_llm demo_pipeline demo_results)"
    by blast
  from free have "list_all (\<lambda>s. CHR ''='' \<notin> set s) (content_strings demo_results)"
    by (simp only: list_all_iff)
  with c parts a b show ?thesis by (intro conjI)
qed

subsection \<open>The formatter as a function of the search results\<close>

lemma for_entries_eq:
  "for_entries line i obs st = st \<lparr> st_parts := append_entries line i obs (st_parts st) \<rparr>"
  by (induction obs arbitrary: i st) (simp_all add: append_part_def)

lemma section_block_eq:
  "section_block header line coll st =
     st \<lparr> st_parts := add_section header line (coll (st_results st)) (st_parts st) \<rparr>"
  by (simp add: section_block_def add_section_def for_entries_eq append_part_def Let_def)

lemma format_context_for_llm_run_eq:
  "format_context_for_llm_run st =
     (join ''\<newline>'' (context_parts (st_results st)), st \<lparr> st_parts := context_parts (st_results st) \<rparr>)"
  by (simp add: format_context_for_llm_run_def context_parts_def section_block_eq append_part_def Let_def)

text \<open>
  Claim C7. A call of \<^verbatim>\<open>format_context_for_llm\<close>, run as a state transformer on the pipeline
  object, the SearchResults, the tick and the list \<^verbatim>\<open>context_parts\<close>, returns the text of
  the functional definition and leaves the SearchResults, the pipeline object and the tick
  as they were: it mutates neither its input nor the pipeline and reads neither the clock
  nor a collaborator. A second run on the state that the first one left returns the same
  text, and so do two runs from any two states with the same SearchResults, whatever the
  pipeline object, the tick and the old content of \<^verbatim>\<open>context_parts\<close> are.
\<close>

theorem format_context_pure:
  "fst (format_context_for_llm_run st) = format_context_for_llm (st_self st) (st_results st) \<and>
   st_results (snd (format_context_for_llm_run st)) = st_results st \<and>
   st_self (snd (format_context_for_llm_run st)) = st_self st \<and>
   st_tick (snd (format_context_for_llm_run st)) = st_tick st \<and>
   fst (format_context_for_llm_run (snd (format_context_for_llm_run st))) =
     fst (format_context_for_llm_run st) \<and>
   (st_results st1 = st_results st2 \<longrightarrow>
      fst (format_context_for_llm_run st1) = fst (format_context_for_llm_run st2))"
  by (simp add: format_context_for_llm_run_eq format_context_for_llm_def)

text \<open>Two runs on the results of the example, from the two states of the stub
  environment.\<close>

theorem format_context_pure_witness:
  "st_results demo_state = st_results demo_state_later \<and>
   fst (format_context_for_llm_run demo_state) = fst (format_context_for_llm_run demo_state_later) \<and>
   fst (format_context_for_llm_run demo_state) =
     ''SEARCH QUERY: How does trample work?\<newline>'' @
     ''SEARCH TIMESTAMP: 2024-05-01T12:00:00\<newline>'' @
     ''\<newline>'' @
     ''=== OFFICIAL RULES ===\<newline>'' @
     ''1. [Score: 0.900] 702.19b Trample assigns excess damage.\<newline>'' \<and>
   st_results (snd (format_context_for_llm_run demo_state)) = demo_results \<and>
   st_self (snd (format_context_for_llm_run demo_state)) = demo_pipeline"
proof -
  have r: "st_results demo_state = st_results demo_state_later"
    by (simp add: demo_state_def demo_state_later_def)
  note t = format_context_pure [where st = demo_state and ?st1.0 = demo_state and ?st2.0 = demo_state_later]
  from t r have a: "fst (format_context_for_llm_run demo_state) = fst (format_context_for_llm_run demo_state_later)"
    by blast
  from t have "fst (format_context_for_llm_run demo_state) =
      format_context_for_llm (st_self demo_state) (st_results demo_state)"
    by blast
  then have b: "fst (format_context_for_llm_run demo_state) =
     ''SEARCH QUERY: How does trample work?\<newline>'' @
     ''SEARCH TIMESTAMP: 2024-05-01T12:00:00\<newline>'' @
     ''\<newline>'' @
     ''=== OFFICIAL RULES ===\<newline>'' @
     ''1. [Score: 0.900] 702.19b Trample assigns excess damage.\<newline>''"
    by (simp only: format_context_for_llm_def demo_state_def fmt_state.simps demo_results_text)
  from t have c: "st_results (snd (format_context_for_llm_run demo_state)) = demo_results"
    "st_self (snd (format_context_for_llm_run demo_state)) = demo_pipeline"
    by (simp_all add: demo_state_def)
  from r a b c show ?thesis by (intro conjI)
qed

subsection \<open>The key of the mana cost\<close>

text \<open>
  Claim C10. The schema of the cards collection names the mana cost \<^verbatim>\<open>manaCost\<close> and has no
  property \<^verbatim>\<open>manacost\<close>. For every card whose properties hold the mana cost under the key
  \<^verbatim>\<open>manaCost\<close> and hold nothing under \<^verbatim>\<open>manacost\<close>, the card line shows no mana cost: it is
  the line of the same card without the key \<^verbatim>\<open>manaCost\<close>, made of the name, the type, power
  and toughness, and the text only, because the formatter reads the key \<^verbatim>\<open>manacost\<close>.
\<close>

theorem mana_cost_key_not_read:
  assumes "properties ob ''manaCost'' = Some mc"
    and "properties ob ''manacost'' = None"
  shows "''manaCost'' \<in> set cards_schema_properties \<and>
         ''manacost'' \<notin> set cards_schema_properties \<and>
         card_info i ob = card_info i (ob \<lparr> properties := (properties ob) (''manaCost'' := None) \<rparr>) \<and>
         card_info i ob =
           entry_prefix i (score (metadata ob)) @
           or_default (properties ob ''name'') ''Unknown Card'' @
           optional_segment '' - '' (properties ob ''type'') [] @
           power_toughness_segment (properties ob ''power'') (properties ob ''toughness'') @
           optional_segment ''\<newline>   Text: '' (properties ob ''text'') []"
  using assms(2) by (simp add: card_info_eq optional_segment_def cards_schema_properties_def)

text \<open>The card of the stub environment stores its cost under \<^verbatim>\<open>manaCost\<close>; a card that
  stores it under \<^verbatim>\<open>manacost\<close> shows it.\<close>

theorem mana_cost_key_not_read_witness:
  "properties demo_card ''manaCost'' = Some ''{4}{G}{G}'' \<and>
   properties demo_card ''manacost'' = None \<and>
   card_info 1 demo_card = ''1. [Score: 0.500] Colossal Dreadmaw - Creature (6/6)'' \<and>
   card_info 1 demo_bolt =
     ''1. [Score: 0.850] Lightning Bolt {R} - Instant\<newline>   Text: Lightning Bolt deals 3 damage to any target.''"
proof -
  have a: "properties demo_card ''manaCost'' = Some ''{4}{G}{G}''"
    and b: "properties demo_card ''manacost'' = None"
    by (simp_all add: demo_card_def)
  from mana_cost_key_not_read [OF a b, of 1]
  have "card_info 1 demo_card =
           entry_prefix 1 (score (metadata demo_card)) @
           or_default (properties demo_card ''name'') ''Unknown Card'' @
           optional_segment '' - '' (properties demo_card ''type'') [] @
           power_toughness_segment (properties demo_card ''power'') (properties demo_card ''toughness'') @
           optional_segment ''\<newline>   Text: '' (properties demo_card ''text'') []"
    by blast
  then have c: "card_info 1 demo_card = ''1. [Score: 0.500] Colossal Dreadmaw - Creature (6/6)''"
    by (simp add: demo_card_def or_default_def optional_segment_def power_toughness_segment_def
        entry_prefix_def format_3f_examples str_nat_examples)
  have d: "card_info 1 demo_bolt =
     ''1. [Score: 0.850] Lightning Bolt {R} - Instant\<newline>   Text: Lightning Bolt deals 3 damage to any target.''"
    by (simp add: card_info_eq demo_bolt_def or_default_def optional_segment_def power_toughness_segment_def
        entry_prefix_def format_3f_examples str_nat_examples)
  from a b c d show ?thesis by simp
qed

end
